theory Spec2Isabelle
  imports Main "HOL-Library.Log_Nat"
begin

section \<open>Python values used by the bridge\<close>

subsection \<open>Floats\<close>

text \<open>
  A Python float is an IEEE-754 binary64 value. A finite one is represented by the
  rational number it denotes (the two signed zeros are not told apart: they compare equal
  in Python); the three special values are constructors of their own.
\<close>

datatype pyfloat = Fin rat | PInf | NInf | NaN

definition pow2 :: "int \<Rightarrow> rat" where
  "pow2 e = (if 0 \<le> e then of_int (2 ^ nat e) else 1 / of_int (2 ^ nat (- e)))"

definition round_half_even :: "rat \<Rightarrow> int" where
  "round_half_even q =
     (let f = \<lfloor>q\<rfloor>; r = q - of_int f
      in if r < 1 / 2 then f else if 1 / 2 < r then f + 1 else if even f then f else f + 1)"

text \<open>\<open>ilog2 a\<close> is the binary exponent of a positive rational: \<open>2^e \<le> a < 2^(e+1)\<close>.\<close>

definition ilog2 :: "rat \<Rightarrow> int" where
  "ilog2 a = (let k = bitlen (fst (quotient_of a)) - bitlen (snd (quotient_of a))
              in if pow2 k \<le> a then k else k - 1)"

text \<open>
  Rounding of an exact value to the nearest binary64 value, ties to even: 53 significant
  bits, subnormals below \<open>2^-1022\<close>, and an infinity when the rounded value reaches
  \<open>2^1024\<close>.
\<close>

definition double_round :: "rat \<Rightarrow> pyfloat" where
  "double_round q =
     (if q = 0 then Fin 0
      else let a = \<bar>q\<bar>;
               e = max (ilog2 a) (- 1022);
               u = pow2 (e - 52);
               r = of_int (round_half_even (a / u)) * u
           in if pow2 1024 \<le> r then (if 0 < q then PInf else NInf)
              else Fin (if 0 < q then r else - r))"

datatype py_exception =
    ValueError string
  | TypeError
  | AttributeError
  | OverflowError
  | ZeroDivisionError
  | RuntimeError string
  | LibraryError string

text \<open>
  \<open>ValueError\<close> and \<open>RuntimeError\<close> carry the message the source gives them;
  \<open>LibraryError\<close> stands for any other subclass of \<open>Exception\<close> that a library call
  raises (a JSON decoding error, an unknown time zone, a network failure).
\<close>

definition bind_exc :: "py_exception + 'a \<Rightarrow> ('a \<Rightarrow> py_exception + 'b) \<Rightarrow> py_exception + 'b" where
  "bind_exc r f = (case r of Inl e \<Rightarrow> Inl e | Inr x \<Rightarrow> f x)"

text \<open>\<open>float(n)\<close> for a Python int: correctly rounded, OverflowError when out of range.\<close>

definition float_of_int :: "int \<Rightarrow> py_exception + pyfloat" where
  "float_of_int n =
     (case double_round (of_int n) of
        Fin q \<Rightarrow> Inr (Fin q)
      | _ \<Rightarrow> Inl OverflowError)"

text \<open>\<open>n / m\<close> for two Python ints: the correctly rounded quotient.\<close>

definition int_true_div :: "int \<Rightarrow> int \<Rightarrow> py_exception + pyfloat" where
  "int_true_div n m =
     (if m = 0 then Inl ZeroDivisionError
      else case double_round (of_int n / of_int m) of
             Fin q \<Rightarrow> Inr (Fin q)
           | _ \<Rightarrow> Inl OverflowError)"

fun fsign :: "pyfloat \<Rightarrow> int" where
  "fsign (Fin q) = (if 0 < q then 1 else if q < 0 then - 1 else 0)"
| "fsign PInf = 1"
| "fsign NInf = - 1"
| "fsign NaN = 0"

text \<open>\<open>x * y\<close> on floats: an overflow gives an infinity, never an exception.\<close>

fun float_mul :: "pyfloat \<Rightarrow> pyfloat \<Rightarrow> pyfloat" where
  "float_mul (Fin a) (Fin b) = double_round (a * b)"
| "float_mul NaN y = NaN"
| "float_mul x NaN = NaN"
| "float_mul x y =
     (let s = fsign x * fsign y
      in if s = 0 then NaN else if 0 < s then PInf else NInf)"

text \<open>\<open>x / y\<close> on floats: ZeroDivisionError on a zero divisor.\<close>

fun float_div :: "pyfloat \<Rightarrow> pyfloat \<Rightarrow> py_exception + pyfloat" where
  "float_div (Fin a) (Fin b) = (if b = 0 then Inl ZeroDivisionError else Inr (double_round (a / b)))"
| "float_div NaN y = (if y = Fin 0 then Inl ZeroDivisionError else Inr NaN)"
| "float_div x NaN = Inr NaN"
| "float_div x (Fin b) =
     (if b = 0 then Inl ZeroDivisionError
      else Inr (if 0 < fsign x * fsign (Fin b) then PInf else NInf))"
| "float_div (Fin a) y = Inr (Fin 0)"
| "float_div x y = Inr NaN"

text \<open>
  \<open>round(x, 2)\<close> on a float: the exact value is rounded to two decimals, ties to even,
  and the decimal result is converted back to the nearest float; an infinity and NaN
  round to themselves.
\<close>

fun py_round2 :: "pyfloat \<Rightarrow> py_exception + pyfloat" where
  "py_round2 (Fin q) =
     (case double_round (of_int (round_half_even (q * 100)) / 100) of
        Fin r \<Rightarrow> Inr (Fin r)
      | _ \<Rightarrow> Inl OverflowError)"
| "py_round2 x = Inr x"

subsection \<open>Decoded JSON\<close>

text \<open>
  What \<open>json.loads\<close> returns: \<open>None\<close>, a bool, an int of any size, a float, a str,
  a list or a dict (its items, each key once).
\<close>

datatype json =
    JNull
  | JBool bool
  | JInt int
  | JFloat pyfloat
  | JStr string
  | JArr "json list"
  | JObj "(string \<times> json) list"

text \<open>\<open>d.get(k)\<close> and \<open>d.get(k, default)\<close>; \<open>JNull\<close> is Python's \<open>None\<close>.\<close>

definition dict_get_default :: "(string \<times> json) list \<Rightarrow> string \<Rightarrow> json \<Rightarrow> json" where
  "dict_get_default d k dflt = (case map_of d k of None \<Rightarrow> dflt | Some v \<Rightarrow> v)"

definition dict_get :: "(string \<times> json) list \<Rightarrow> string \<Rightarrow> json" where
  "dict_get d k = dict_get_default d k JNull"

text \<open>Truth value of an object, as \<open>or\<close> and \<open>not\<close> test it.\<close>

fun py_truthy :: "json \<Rightarrow> bool" where
  "py_truthy JNull = False"
| "py_truthy (JBool b) = b"
| "py_truthy (JInt n) = (n \<noteq> 0)"
| "py_truthy (JFloat x) = (x \<noteq> Fin 0)"
| "py_truthy (JStr s) = (s \<noteq> [])"
| "py_truthy (JArr xs) = (xs \<noteq> [])"
| "py_truthy (JObj kvs) = (kvs \<noteq> [])"

definition py_or :: "json \<Rightarrow> json \<Rightarrow> json" where
  "py_or a b = (if py_truthy a then a else b)"

text \<open>
  A \<open>string\<close> here is the UTF-8 encoding of a Python str: an ASCII character is one
  \<open>char\<close>, any other code point several \<open>char\<close>s from 128 up. On a str of
  ASCII characters \<open>str.lower\<close> maps \<open>A\<close>..\<open>Z\<close> to \<open>a\<close>..\<open>z\<close> and leaves the
  rest alone.
\<close>

definition lower_char :: "char \<Rightarrow> char" where
  "lower_char c =
     (if 65 \<le> (of_char c :: nat) \<and> (of_char c :: nat) \<le> 90
      then char_of ((of_char c :: nat) + 32) else c)"

definition is_ascii :: "string \<Rightarrow> bool" where
  "is_ascii s = list_all (\<lambda>c. (of_char c :: nat) < 128) s"

section \<open>Library interface\<close>

text \<open>
  The calls the bridge makes into \<open>json\<close>, \<open>datetime\<close>, \<open>zoneinfo\<close>, \<open>requests\<close>
  and the MQTT client are parameters of the model: \<open>'tz\<close> is a time zone object and
  \<open>'dt\<close> a datetime object.
\<close>

record http_response =
  status_code :: int
  text_of :: string
  json_of :: "json option"

record attribute_update =
  u_name :: string
  u_date :: string
  u_value :: pyfloat

record ('tz, 'dt) pylib =
  json_loads :: "string \<Rightarrow> py_exception + json"
  float_of_str :: "string \<Rightarrow> pyfloat option"
  str_of :: "json \<Rightarrow> string"
  unicode_lower :: "string \<Rightarrow> string"
  ZoneInfo :: "string \<Rightarrow> py_exception + 'tz"
  datetime_now :: "'tz \<Rightarrow> 'dt"
  fromtimestamp :: "pyfloat \<Rightarrow> 'tz \<Rightarrow> py_exception + 'dt"
  fromisoformat :: "string \<Rightarrow> py_exception + 'dt"
  tzinfo_is_None :: "'dt \<Rightarrow> bool"
  replace_tzinfo :: "'dt \<Rightarrow> 'tz \<Rightarrow> 'dt"
  astimezone :: "'dt \<Rightarrow> 'tz \<Rightarrow> py_exception + 'dt"
  strftime :: "'dt \<Rightarrow> string \<Rightarrow> string"
  requests_post :: "string \<Rightarrow> (string \<times> string) list \<Rightarrow> attribute_update list \<Rightarrow> nat
                      \<Rightarrow> py_exception + http_response"
  mqtt_connect :: "py_exception option"

text \<open>\<open>float(v)\<close> on a decoded JSON value.\<close>

fun py_float :: "('tz, 'dt) pylib \<Rightarrow> json \<Rightarrow> py_exception + pyfloat" where
  "py_float lib (JFloat x) = Inr x"
| "py_float lib (JInt n) = float_of_int n"
| "py_float lib (JBool b) = Inr (Fin (if b then 1 else 0))"
| "py_float lib (JStr s) =
     (case float_of_str lib s of
        None \<Rightarrow> Inl (ValueError ''could not convert string to float'')
      | Some x \<Rightarrow> Inr x)"
| "py_float lib v = Inl TypeError"

text \<open>
  \<open>s.lower()\<close>: computed on a str of ASCII characters; on any other str it is the
  library's Unicode lowering (which, for one, maps the Kelvin sign U+212A to \<open>k\<close>).
  A value that is not a str has no such method.
\<close>

definition str_lower :: "('tz, 'dt) pylib \<Rightarrow> string \<Rightarrow> string" where
  "str_lower lib s = (if is_ascii s then map lower_char s else unicode_lower lib s)"

fun py_lower :: "('tz, 'dt) pylib \<Rightarrow> json \<Rightarrow> py_exception + string" where
  "py_lower lib (JStr s) = Inr (str_lower lib s)"
| "py_lower lib v = Inl AttributeError"

text \<open>\<open>str(v)\<close>: a str is itself, anything else is printed by the library.\<close>

fun py_str :: "('tz, 'dt) pylib \<Rightarrow> json \<Rightarrow> string" where
  "py_str lib (JStr s) = s"
| "py_str lib v = str_of lib v"

section \<open>Configuration\<close>

record config =
  EXIST_TOKEN :: "string option"
  ATTR_WEIGHT :: string
  ATTR_FAT :: string
  LOCAL_TZ :: string

definition getenv_default :: "(string \<Rightarrow> string option) \<Rightarrow> string \<Rightarrow> string \<Rightarrow> string" where
  "getenv_default env k dflt = (case env k of None \<Rightarrow> dflt | Some v \<Rightarrow> v)"

text \<open>The module-level settings of \<open>mqtt2exist.py\<close>, read from the environment.\<close>

definition load_config :: "(string \<Rightarrow> string option) \<Rightarrow> config" where
  "load_config env =
     \<lparr> EXIST_TOKEN = env ''EXIST_TOKEN'',
       ATTR_WEIGHT = getenv_default env ''ATTR_WEIGHT'' ''weight'',
       ATTR_FAT = getenv_default env ''ATTR_FAT'' ''body_fat'',
       LOCAL_TZ = getenv_default env ''LOCAL_TZ'' ''America/Toronto'' \<rparr>"

text \<open>The module-level settings of \<open>mqtt2exit.py\<close>: only the token is read.\<close>

definition load_config_exit :: "(string \<Rightarrow> string option) \<Rightarrow> config" where
  "load_config_exit env =
     \<lparr> EXIST_TOKEN = env ''EXIST_TOKEN'',
       ATTR_WEIGHT = ''weight'',
       ATTR_FAT = ''body_fat'',
       LOCAL_TZ = ''America/Toronto'' \<rparr>"

definition EXIST_UPDATE_URL :: string where
  "EXIST_UPDATE_URL = ''https://exist.io/api/2/attributes/update/''"

text \<open>\<open>not EXIST_TOKEN\<close>: the token is \<open>None\<close> or the empty string.\<close>

definition token_missing :: "config \<Rightarrow> bool" where
  "token_missing cfg = (case EXIST_TOKEN cfg of None \<Rightarrow> True | Some t \<Rightarrow> t = [])"

section \<open>Helpers (both files)\<close>

text \<open>The float literal \<open>0.45359237\<close>.\<close>

definition LB_FACTOR :: pyfloat where
  "LB_FACTOR = double_round (45359237 / 100000000)"

definition lb_to_kg :: "('tz, 'dt) pylib \<Rightarrow> json \<Rightarrow> py_exception + pyfloat" where
  "lb_to_kg lib lb = bind_exc (py_float lib lb) (\<lambda>x. Inr (float_mul x LB_FACTOR))"

text \<open>
  The offset repair of \<open>to_local_date\<close>:
  \<^verbatim>\<open>if len(s) >= 5 and (s[-5] in "+-") and (s[-3] != ":"): s = s[:-2] + ":" + s[-2:]\<close>
\<close>

definition insert_offset_colon :: "string \<Rightarrow> string" where
  "insert_offset_colon s =
     (if 5 \<le> length s
         \<and> (s ! (length s - 5) = CHR ''+'' \<or> s ! (length s - 5) = CHR ''-'')
         \<and> s ! (length s - 3) \<noteq> CHR '':''
      then take (length s - 2) s @ '':'' @ drop (length s - 2) s
      else s)"

text \<open>\<open>isinstance(v, (int, float))\<close>; a bool is an int.\<close>

fun is_int_or_float :: "json \<Rightarrow> bool" where
  "is_int_or_float (JInt n) = True"
| "is_int_or_float (JFloat x) = True"
| "is_int_or_float (JBool b) = True"
| "is_int_or_float v = False"

text \<open>
  \<open>to_local_date\<close> has the same body in both files (\<open>mqtt2exit.py\<close> builds the zone
  object a second time for \<open>astimezone\<close>, from the same name).
\<close>

definition to_local_date :: "('tz, 'dt) pylib \<Rightarrow> config \<Rightarrow> json \<Rightarrow> py_exception + string" where
  "to_local_date lib cfg date_like =
     bind_exc (ZoneInfo lib (LOCAL_TZ cfg)) (\<lambda>tz.
       if date_like = JNull then Inr (strftime lib (datetime_now lib tz) ''%Y-%m-%d'')
       else if is_int_or_float date_like then
         bind_exc (py_float lib date_like) (\<lambda>x.
         bind_exc (fromtimestamp lib x tz) (\<lambda>dt.
           Inr (strftime lib dt ''%Y-%m-%d'')))
       else
         let s = insert_offset_colon (py_str lib date_like)
         in bind_exc (fromisoformat lib s) (\<lambda>dt.
              let dt' = (if tzinfo_is_None lib dt then replace_tzinfo lib dt tz else dt)
              in bind_exc (astimezone lib dt' tz) (\<lambda>dt''.
                   Inr (strftime lib dt'' ''%Y-%m-%d''))))"

section \<open>Payload Normalizer\<close>

text \<open>The message \<^verbatim>\<open>Payload missing 'weight' or 'weight_kg'\<close> (both files).\<close>

definition MISSING_WEIGHT :: string where
  "MISSING_WEIGHT = ''Payload missing '' @ [CHR 0x27] @ ''weight'' @ [CHR 0x27] @ '' or ''
                    @ [CHR 0x27] @ ''weight_kg'' @ [CHR 0x27]"

text \<open>
  The argument of the date resolver, in both files:
  \<^verbatim>\<open>d.get("date") or d.get("timestamp") or d.get("ts")\<close>
\<close>

definition date_arg :: "(string \<times> json) list \<Rightarrow> json" where
  "date_arg d = py_or (py_or (dict_get d ''date'') (dict_get d ''timestamp'')) (dict_get d ''ts'')"

text \<open>\<^verbatim>\<open>d.get("weight_kg", d.get("weight"))\<close>\<close>

definition weight_arg :: "(string \<times> json) list \<Rightarrow> json" where
  "weight_arg d = dict_get_default d ''weight_kg'' (dict_get d ''weight'')"

text \<open>\<^verbatim>\<open>(d.get("unit") or "kg").lower()\<close>\<close>

definition unit_arg :: "('tz, 'dt) pylib \<Rightarrow> (string \<times> json) list \<Rightarrow> py_exception + string" where
  "unit_arg lib d = py_lower lib (py_or (dict_get d ''unit'') (JStr ''kg''))"

text \<open>
  \<open>parse_payload\<close> of \<open>mqtt2exist.py\<close>, after \<open>json.loads\<close>. A decoded value that
  is not a dict has no usable \<open>get\<close> (AttributeError).
\<close>

fun parse_decoded :: "('tz, 'dt) pylib \<Rightarrow> config \<Rightarrow> json
    \<Rightarrow> py_exception + (string \<times> pyfloat \<times> pyfloat option)" where
  "parse_decoded lib cfg (JObj d) =
     bind_exc (to_local_date lib cfg (date_arg d)) (\<lambda>date_str.
       let weight = weight_arg d
       in if weight = JNull then Inl (ValueError MISSING_WEIGHT)
          else
            bind_exc (unit_arg lib d) (\<lambda>unit.
            bind_exc (if unit = ''kg'' then py_float lib weight
                      else bind_exc (py_float lib weight) (\<lambda>x. lb_to_kg lib (JFloat x))) (\<lambda>weight_kg.
            bind_exc (let fat_pct_val = dict_get d ''fat''
                      in if fat_pct_val \<noteq> JNull then
                           bind_exc (py_float lib fat_pct_val) (\<lambda>x.
                           bind_exc (float_div x (Fin 100)) (\<lambda>fat_fraction.
                           bind_exc (py_round2 fat_fraction) (\<lambda>r. Inr (Some r))))
                         else Inr None) (\<lambda>fat_fraction.
            bind_exc (py_round2 weight_kg) (\<lambda>w.
              Inr (date_str, w, fat_fraction))))))"
| "parse_decoded lib cfg v = Inl AttributeError"

definition parse_payload :: "('tz, 'dt) pylib \<Rightarrow> config \<Rightarrow> string
    \<Rightarrow> py_exception + (string \<times> pyfloat \<times> pyfloat option)" where
  "parse_payload lib cfg payload = bind_exc (json_loads lib payload) (parse_decoded lib cfg)"

text \<open>\<open>fat_pct / 100\<close> in \<open>mqtt2exit.py\<close>: true division of whatever \<open>d.get("fat")\<close> is.\<close>

fun div_by_100 :: "json \<Rightarrow> py_exception + pyfloat" where
  "div_by_100 (JInt n) = int_true_div n 100"
| "div_by_100 (JBool b) = int_true_div (if b then 1 else 0) 100"
| "div_by_100 (JFloat x) = float_div x (Fin 100)"
| "div_by_100 v = Inl TypeError"

text \<open>
  \<open>parse_payload\<close> of \<open>mqtt2exit.py\<close>, after \<open>json.loads\<close>. The division comes
  before the test for \<open>None\<close>, so the test is reached with a float only.
\<close>

fun parse_decoded_exit :: "('tz, 'dt) pylib \<Rightarrow> config \<Rightarrow> json
    \<Rightarrow> py_exception + (string \<times> pyfloat \<times> pyfloat option)" where
  "parse_decoded_exit lib cfg (JObj d) =
     bind_exc (to_local_date lib cfg (date_arg d)) (\<lambda>date_str.
       let weight = weight_arg d
       in if weight = JNull then Inl (ValueError MISSING_WEIGHT)
          else
            bind_exc (unit_arg lib d) (\<lambda>unit.
            bind_exc (if unit = ''kg'' then py_float lib weight else lb_to_kg lib weight) (\<lambda>weight_kg.
            bind_exc (div_by_100 (dict_get d ''fat'')) (\<lambda>fat_pct.
            bind_exc (py_float lib (JFloat fat_pct)) (\<lambda>fat_pct.
            bind_exc (py_round2 weight_kg) (\<lambda>w.
            bind_exc (py_round2 fat_pct) (\<lambda>r.
              Inr (date_str, w, Some r))))))))"
| "parse_decoded_exit lib cfg v = Inl AttributeError"

definition parse_payload_exit :: "('tz, 'dt) pylib \<Rightarrow> config \<Rightarrow> string
    \<Rightarrow> py_exception + (string \<times> pyfloat \<times> pyfloat option)" where
  "parse_payload_exit lib cfg payload =
     bind_exc (json_loads lib payload) (parse_decoded_exit lib cfg)"

section \<open>Update Mapper and Attribute Store call\<close>

datatype log_entry =
    Info_mqtt_message string string
  | Info_parsed string pyfloat "pyfloat option"
  | Info_posting "attribute_update list"
  | Info_response json
  | Info_response_non_json string
  | Info_connecting
  | Error_processing_failed py_exception

datatype effect =
    Log log_entry
  | HttpPost string "(string \<times> string) list" "attribute_update list" nat

text \<open>The list \<open>updates\<close> that \<open>post_exist\<close> builds (the same in both files).\<close>

definition build_updates :: "config \<Rightarrow> string \<Rightarrow> pyfloat \<Rightarrow> pyfloat option \<Rightarrow> attribute_update list" where
  "build_updates cfg date_str weight_kg fat_fraction =
     [\<lparr> u_name = ATTR_WEIGHT cfg, u_date = date_str, u_value = weight_kg \<rparr>]
     @ (case fat_fraction of
          None \<Rightarrow> []
        | Some f \<Rightarrow> [\<lparr> u_name = ATTR_FAT cfg, u_date = date_str, u_value = f \<rparr>])"

definition auth_headers :: "config \<Rightarrow> (string \<times> string) list" where
  "auth_headers cfg =
     [(''Authorization'', ''Bearer '' @ (case EXIST_TOKEN cfg of None \<Rightarrow> [] | Some t \<Rightarrow> t)),
      (''Content-Type'', ''application/json'')]"

text \<open>\<^verbatim>\<open>f"Exist update failed {r.status_code}: {r.text[:300]}"\<close>\<close>

definition update_failed :: "('tz, 'dt) pylib \<Rightarrow> http_response \<Rightarrow> string" where
  "update_failed lib r =
     ''Exist update failed '' @ str_of lib (JInt (status_code r)) @ '': '' @ take 300 (text_of r)"

text \<open>
  A call returns the effects it had, in order, and the exception it raised, if any.
  \<open>post_exist\<close> of \<open>mqtt2exist.py\<close>:
\<close>

definition post_exist :: "('tz, 'dt) pylib \<Rightarrow> config \<Rightarrow> string \<Rightarrow> pyfloat \<Rightarrow> pyfloat option
    \<Rightarrow> effect list \<times> py_exception option" where
  "post_exist lib cfg date_str weight_kg fat_fraction =
     (if token_missing cfg
      then ([], Some (RuntimeError ''EXIST_TOKEN is not set. Please export it or define it in your .env.''))
      else
        let updates = build_updates cfg date_str weight_kg fat_fraction;
            sent = [Log (Info_posting updates),
                    HttpPost EXIST_UPDATE_URL (auth_headers cfg) updates 30]
        in case requests_post lib EXIST_UPDATE_URL (auth_headers cfg) updates 30 of
             Inl e \<Rightarrow> (sent, Some e)
           | Inr r \<Rightarrow>
               if status_code r \<noteq> 200 \<and> status_code r \<noteq> 202
               then (sent, Some (RuntimeError (update_failed lib r)))
               else (case json_of r of
                       Some j \<Rightarrow> (sent @ [Log (Info_response j)], None)
                     | None \<Rightarrow> (sent @ [Log (Info_response_non_json (take 300 (text_of r)))], None)))"

text \<open>\<open>post_exist\<close> of \<open>mqtt2exit.py\<close>: \<open>r.json()\<close> is not guarded.\<close>

definition post_exist_exit :: "('tz, 'dt) pylib \<Rightarrow> config \<Rightarrow> string \<Rightarrow> pyfloat \<Rightarrow> pyfloat option
    \<Rightarrow> effect list \<times> py_exception option" where
  "post_exist_exit lib cfg date_str weight_kg fat_pct =
     (if token_missing cfg
      then ([], Some (RuntimeError ''Set EXIST_TOKEN (OAuth2 Bearer with write scope).''))
      else
        let updates = build_updates cfg date_str weight_kg fat_pct;
            sent = [HttpPost EXIST_UPDATE_URL (auth_headers cfg) updates 30]
        in case requests_post lib EXIST_UPDATE_URL (auth_headers cfg) updates 30 of
             Inl e \<Rightarrow> (sent, Some e)
           | Inr r \<Rightarrow>
               if status_code r \<noteq> 200 \<and> status_code r \<noteq> 202
               then (sent, Some (RuntimeError (update_failed lib r)))
               else (case json_of r of
                       Some j \<Rightarrow> (sent @ [Log (Info_response j)], None)
                     | None \<Rightarrow> (sent, Some (LibraryError ''JSONDecodeError''))))"

section \<open>Pipeline Controller\<close>

record mqtt_message =
  topic :: string
  payload_text :: string

text \<open>
  \<open>try: ... except Exception as e: logging.error(...)\<close>: the effects of the body stay,
  the exception is logged and does not leave the handler.
\<close>

definition except_log :: "effect list \<times> py_exception option \<Rightarrow> effect list \<times> py_exception option" where
  "except_log r =
     (case snd r of
        None \<Rightarrow> r
      | Some e \<Rightarrow> (fst r @ [Log (Error_processing_failed e)], None))"

text \<open>
  \<open>on_message\<close> of \<open>mqtt2exist.py\<close>; \<open>payload_text\<close> is the payload decoded with
  \<open>errors="replace"\<close>, which cannot fail.
\<close>

definition on_message :: "('tz, 'dt) pylib \<Rightarrow> config \<Rightarrow> mqtt_message
    \<Rightarrow> effect list \<times> py_exception option" where
  "on_message lib cfg msg =
     (let payload = payload_text msg;
          pre = [Log (Info_mqtt_message (topic msg) payload)];
          body = (case parse_payload lib cfg payload of
                    Inl e \<Rightarrow> ([], Some e)
                  | Inr (date_str, weight_kg, fat_fraction) \<Rightarrow>
                      (let posted = post_exist lib cfg date_str weight_kg fat_fraction
                       in (Log (Info_parsed date_str weight_kg fat_fraction) # fst posted, snd posted)));
          handled = except_log body
      in (pre @ fst handled, snd handled))"

definition on_message_exit :: "('tz, 'dt) pylib \<Rightarrow> config \<Rightarrow> mqtt_message
    \<Rightarrow> effect list \<times> py_exception option" where
  "on_message_exit lib cfg msg =
     (let payload = payload_text msg;
          pre = [Log (Info_mqtt_message (topic msg) payload)];
          body = (case parse_payload_exit lib cfg payload of
                    Inl e \<Rightarrow> ([], Some e)
                  | Inr (date_str, weight_kg, fat_pct) \<Rightarrow>
                      post_exist_exit lib cfg date_str weight_kg fat_pct);
          handled = except_log body
      in (pre @ fst handled, snd handled))"

text \<open>
  \<open>client.loop_forever()\<close> over the messages the broker delivers: the handler runs on
  each in turn, and an exception leaving the handler ends the loop.
\<close>

fun loop_forever :: "(mqtt_message \<Rightarrow> effect list \<times> py_exception option) \<Rightarrow> mqtt_message list
    \<Rightarrow> effect list \<times> py_exception option" where
  "loop_forever handler [] = ([], None)"
| "loop_forever handler (m # ms) =
     (case handler m of
        (es, Some e) \<Rightarrow> (es, Some e)
      | (es, None) \<Rightarrow> (let rest = loop_forever handler ms in (es @ fst rest, snd rest)))"

definition run_client :: "('tz, 'dt) pylib \<Rightarrow> (mqtt_message \<Rightarrow> effect list \<times> py_exception option)
    \<Rightarrow> mqtt_message list \<Rightarrow> effect list \<times> py_exception option" where
  "run_client lib handler msgs =
     (case mqtt_connect lib of
        Some e \<Rightarrow> ([Log Info_connecting], Some e)
      | None \<Rightarrow> (let r = loop_forever handler msgs in (Log Info_connecting # fst r, snd r)))"

text \<open>
  \<open>main\<close> of \<open>mqtt2exist.py\<close>: the token is checked before the client is built.
  The set-up of the client (credentials, TLS, callbacks) has no part in what follows and
  is left out.
\<close>

definition main :: "('tz, 'dt) pylib \<Rightarrow> config \<Rightarrow> mqtt_message list
    \<Rightarrow> effect list \<times> py_exception option" where
  "main lib cfg msgs =
     (if token_missing cfg
      then ([], Some (RuntimeError ''EXIST_TOKEN is not configured. Set it in .env or environment variables.''))
      else run_client lib (on_message lib cfg) msgs)"

text \<open>\<open>main\<close> of \<open>mqtt2exit.py\<close>: no check, and no log line before connecting.\<close>

definition main_exit :: "('tz, 'dt) pylib \<Rightarrow> config \<Rightarrow> mqtt_message list
    \<Rightarrow> effect list \<times> py_exception option" where
  "main_exit lib cfg msgs =
     (case mqtt_connect lib of
        Some e \<Rightarrow> ([], Some e)
      | None \<Rightarrow> loop_forever (on_message_exit lib cfg) msgs)"

section \<open>Observations on effects\<close>

fun is_http_post :: "effect \<Rightarrow> bool" where
  "is_http_post (HttpPost url headers body t) = True"
| "is_http_post (Log l) = False"

fun is_message_log :: "effect \<Rightarrow> bool" where
  "is_message_log (Log (Info_mqtt_message t p)) = True"
| "is_message_log e = False"

text \<open>The number a JSON number denotes, when it is finite.\<close>

fun number_value :: "json \<Rightarrow> rat option" where
  "number_value (JInt n) = Some (of_int n)"
| "number_value (JFloat (Fin x)) = Some x"
| "number_value v = None"

section \<open>A library stand-in for evaluation\<close>

text \<open>
  To run the model on a concrete payload the library has to be instantiated. In this
  stand-in \<open>json.loads\<close> yields the given decoded value, a time zone is its name, a
  datetime is its local date string, the clock shows 2025-11-04, and the attribute store
  answers 200 with an empty JSON object.
\<close>

text \<open>
  The stand-in's lowering of a str with characters beyond ASCII: the Kelvin sign (UTF-8
  \<open>E2 84 AA\<close>) becomes \<open>k\<close>, ASCII letters are lowered, other bytes are kept.
\<close>

fun fixture_lower :: "string \<Rightarrow> string" where
  "fixture_lower (a # b # c # s) =
     (if a = CHR 0xE2 \<and> b = CHR 0x84 \<and> c = CHR 0xAA then CHR ''k'' # fixture_lower s
      else lower_char a # fixture_lower (b # c # s))"
| "fixture_lower s = map lower_char s"

definition fixture_lib :: "json \<Rightarrow> (string, string) pylib" where
  "fixture_lib d =
     \<lparr> json_loads = (\<lambda>s. Inr d),
       float_of_str = (\<lambda>s. None),
       str_of = (\<lambda>v. []),
       unicode_lower = fixture_lower,
       ZoneInfo = (\<lambda>name. Inr name),
       datetime_now = (\<lambda>tz. ''2025-11-04''),
       fromtimestamp = (\<lambda>x tz. Inr ''1970-01-01''),
       fromisoformat = (\<lambda>s. Inr (take 10 s)),
       tzinfo_is_None = (\<lambda>dt. False),
       replace_tzinfo = (\<lambda>dt tz. dt),
       astimezone = (\<lambda>dt tz. Inr dt),
       strftime = (\<lambda>dt fmt. dt),
       requests_post = (\<lambda>url headers body t.
          Inr \<lparr> status_code = 200, text_of = ''{}'', json_of = Some (JObj []) \<rparr>),
       mqtt_connect = None \<rparr>"

definition fixture_cfg :: config where
  "fixture_cfg = load_config (\<lambda>k. if k = ''EXIST_TOKEN'' then Some ''t0k3n'' else None)"

section \<open>Facts about float rounding\<close>

lemma pow2_pos: "0 < pow2 e"
  by (simp add: pow2_def)

lemma pow2_add: "pow2 (a + b) = pow2 a * pow2 b"
proof -
  have "pow2 e = 2 powi e" for e
    by (simp add: pow2_def power_int_def field_simps)
  then show ?thesis by (simp add: power_int_add)
qed

lemma pow2_nat: "0 \<le> e \<Longrightarrow> pow2 e = 2 ^ nat e"
  by (simp add: pow2_def)

lemma round_half_even_of_int: "round_half_even (of_int m) = m"
  by (simp add: round_half_even_def)

lemma quotient_of_of_int: "quotient_of (of_int n) = (n, 1)"
  by (metis Fract_of_int_eq quotient_of_Fract Rat.normalize_def coprime_1_right div_by_1 gcd_1_int zero_less_one  normalize_stable)

lemma bitlen_one: "bitlen 1 = 1"
  by (simp add: bitlen_alt_def)

lemma bitlen_ge1: "0 < n \<Longrightarrow> 1 \<le> bitlen n"
  by (auto simp: bitlen_alt_def)

lemma ilog2_of_int: "0 < n \<Longrightarrow> ilog2 (of_int n) = bitlen n - 1"
proof -
  assume n: "0 < n"
  have "(2::int) ^ nat (bitlen n - 1) \<le> n"
    using bitlen_bounds [OF n] by simp
  then have "(of_int ((2::int) ^ nat (bitlen n - 1)) :: rat) \<le> of_int n"
    by (simp only: of_int_le_iff)
  then have "pow2 (bitlen n - 1) \<le> of_int n"
    using bitlen_ge1 [OF n] by (simp add: pow2_def)
  then show ?thesis
    by (simp add: ilog2_def quotient_of_of_int bitlen_one)
qed

lemma double_round_of_int_exact:
  assumes "\<bar>n\<bar> \<le> 2 ^ 53"
  shows "double_round (of_int n) = Fin (of_int n)"
proof (cases "n = 0")
  case True
  then show ?thesis by (simp add: double_round_def)
next
  case False
  define m where "m = \<bar>n\<bar>"
  have m: "0 < m" "m \<le> 2 ^ 53" using False assms by (auto simp: m_def)
  define e where "e = bitlen m - 1"
  have e0: "0 \<le> e" using bitlen_ge1 [OF m(1)] by (simp add: e_def)
  have lo: "(2::int) ^ nat e \<le> m"
    using bitlen_bounds [OF m(1)] by (simp add: e_def)
  have "(2::int) ^ nat e \<le> 2 ^ 53" using lo m(2) by linarith
  then have e53: "e \<le> 53" using e0
    by (metis nat_le_iff one_less_numeral_iff power_le_imp_le_exp semiring_norm(76) of_nat_numeral)
  have il: "ilog2 (of_int m) = e" by (simp add: ilog2_of_int m e_def)
  have mx: "max e (- 1022) = e" using e0 by simp
  have ex: "\<exists>k::int. (of_int m :: rat) / pow2 (e - 52) = of_int k"
  proof (cases "e = 53")
    case True
    then have "m = 2 ^ 53" using lo m(2) by simp
    then show ?thesis using True by (intro exI [of _ "2 ^ 52"]) (simp add: pow2_def)
  next
    case False
    then have "e \<le> 52" using e53 by simp
    then have "pow2 (e - 52) = 1 / 2 ^ nat (52 - e)"
      by (auto simp: pow2_def)
    then show ?thesis
      by (intro exI [of _ "m * 2 ^ nat (52 - e)"]) simp
  qed
  then obtain k :: int where k: "(of_int m :: rat) / pow2 (e - 52) = of_int k" by blast
  have r: "of_int (round_half_even (of_int m / pow2 (e - 52))) * pow2 (e - 52) = (of_int m :: rat)"
    using pow2_pos [of "e - 52"] by (simp add: k [symmetric] round_half_even_of_int [of k, folded k] )
  have small: "\<not> pow2 1024 \<le> (of_int m :: rat)"
  proof -
    have "(of_int m :: rat) \<le> 2 ^ 53" using m(2) by (metis of_int_le_iff of_int_numeral of_int_power)
    moreover have "(2::rat) ^ 53 < pow2 1024" by (simp add: pow2_def)
    ultimately show ?thesis by linarith
  qed
  have abs: "\<bar>of_int n :: rat\<bar> = of_int m" by (simp add: m_def)
  have ne: "(of_int n :: rat) \<noteq> 0" using False by simp
  show ?thesis
    unfolding double_round_def Let_def abs il mx r
    using ne small False by (auto simp: m_def)
qed


lemma ilog2_lower:
  assumes "0 < a"
  shows "pow2 (ilog2 a) \<le> a"
proof -
  obtain n d where nd: "quotient_of a = (n, d)" by (cases "quotient_of a")
  have d: "0 < d" using quotient_of_denom_pos [OF nd] .
  have a: "a = of_int n / of_int d" using quotient_of_div [OF nd] .
  have n: "0 < n" using assms d by (simp add: a zero_less_divide_iff)
  define k where "k = bitlen n - bitlen d"
  show ?thesis
  proof (cases "pow2 k \<le> a")
    case True
    then show ?thesis by (simp add: ilog2_def nd k_def)
  next
    case False
    have bn: "1 \<le> bitlen n" and bd: "1 \<le> bitlen d"
      using bitlen_ge1 n d by auto
    have "(2::int) ^ nat (bitlen n - 1) \<le> n" using bitlen_bounds [OF n] by simp
    then have "(of_int ((2::int) ^ nat (bitlen n - 1)) :: rat) \<le> of_int n"
      by (simp only: of_int_le_iff)
    then have lo: "pow2 (bitlen n - 1) \<le> of_int n" using bn by (simp add: pow2_def)
    have "d < 2 ^ nat (bitlen d)" using bitlen_bounds [OF d] by simp
    then have "(of_int d :: rat) \<le> of_int ((2::int) ^ nat (bitlen d))"
      by (simp only: of_int_le_iff)
    then have hi: "of_int d \<le> pow2 (bitlen d)" using bd by (simp add: pow2_def)
    have "pow2 (k - 1) * of_int d \<le> pow2 (k - 1) * pow2 (bitlen d)"
      using hi pow2_pos [of "k - 1"] by simp
    also have "\<dots> = pow2 (bitlen n - 1)"
      by (simp add: pow2_add [symmetric] k_def)
    finally have "pow2 (k - 1) * of_int d \<le> of_int n" using lo by linarith
    then have "pow2 (k - 1) \<le> a" using d by (simp add: a pos_le_divide_eq)
    then show ?thesis using False by (simp add: ilog2_def nd k_def)
  qed
qed

lemma round_half_even_le: "of_int (round_half_even q) \<le> q + 1"
proof -
  have "of_int \<lfloor>q\<rfloor> \<le> q" by simp
  then show ?thesis
    by (auto simp: round_half_even_def Let_def) linarith+
qed

lemma double_round_finite:
  assumes "\<bar>q\<bar> \<le> 2 ^ 1000"
  shows "\<exists>r. double_round q = Fin r"
proof (cases "q = 0")
  case True
  then show ?thesis by (simp add: double_round_def)
next
  case False
  define a where "a = \<bar>q\<bar>"
  have a: "0 < a" "a \<le> 2 ^ 1000" using False assms by (auto simp: a_def)
  define e where "e = max (ilog2 a) (- 1022)"
  define u where "u = pow2 (e - 52)"
  have "pow2 e \<le> max a 1"
  proof (cases "ilog2 a \<le> - 1022")
    case True
    then have "e = - 1022" by (simp add: e_def)
    then have "pow2 e \<le> 1" by (simp add: pow2_def)
    then show ?thesis by simp
  next
    case False
    then have "e = ilog2 a" by (simp add: e_def)
    then show ?thesis using ilog2_lower [OF a(1)] by simp
  qed
  moreover have "u = pow2 e * pow2 (- 52)"
    unfolding u_def by (simp add: pow2_add [symmetric])
  moreover have "pow2 (- 52) \<le> 1" by (simp add: pow2_def)
  ultimately have "u \<le> max a 1"
    using pow2_pos [of e] by (metis mult.right_neutral mult_left_mono less_imp_le order_trans)
  then have u: "u \<le> 2 ^ 1000" using a(2) by simp
  have up: "0 < u" by (simp add: u_def pow2_pos)
  have "of_int (round_half_even (a / u)) * u \<le> (a / u + 1) * u"
    using round_half_even_le [of "a / u"] up by (simp only: mult_le_cancel_right_pos)
  also have "\<dots> = a + u" using up by (simp add: field_simps)
  also have "\<dots> \<le> 2 ^ 1000 + 2 ^ 1000" using a(2) u by linarith
  also have "\<dots> < pow2 1024" by (simp add: pow2_def)
  finally have "\<not> pow2 1024 \<le> of_int (round_half_even (a / u)) * u" by simp
  then show ?thesis
    using False unfolding double_round_def Let_def a_def [symmetric] e_def [symmetric] u_def [symmetric]
    by simp
qed

lemma round_half_even_ge: "q - 1 \<le> of_int (round_half_even q)"
proof -
  have "q < of_int \<lfloor>q\<rfloor> + 1" by linarith
  then show ?thesis
    by (auto simp: round_half_even_def Let_def)
qed

lemma pow2_max_exponent_le:
  assumes "1 \<le> a"
  shows "pow2 (max (ilog2 a) (- 1022) - 52) \<le> a / 2"
proof -
  let ?e = "max (ilog2 a) (- 1022)"
  have e: "pow2 ?e \<le> a"
  proof (cases "ilog2 a \<le> - 1022")
    case True
    then have "?e = - 1022" by simp
    moreover have "pow2 (- 1022) \<le> 1" by (simp add: pow2_def)
    ultimately show ?thesis using assms by simp
  next
    case False
    then have "?e = ilog2 a" by simp
    then show ?thesis using ilog2_lower [of a] assms by simp
  qed
  have s: "pow2 (?e - 52) = pow2 ?e * pow2 (- 52)"
    by (simp add: pow2_add [symmetric])
  have h: "pow2 (- 52) \<le> 1 / 2" by (simp add: pow2_def)
  have "pow2 ?e * pow2 (- 52) \<le> a * (1 / 2)"
    by (rule mult_mono [OF e h]) (use assms pow2_pos [of "- 52"] in simp_all)
  then show ?thesis by (simp add: s)
qed

lemma double_round_overflow:
  assumes "pow2 1025 \<le> q"
  shows "double_round q = PInf"
proof -
  have big: "pow2 1025 = 2 * pow2 1024" by (simp add: pow2_def)
  have one: "(1::rat) \<le> pow2 1024" by (simp add: pow2_def)
  have q1: "1 \<le> q" and q0: "0 < q" using assms big one by linarith+
  define u where "u = pow2 (max (ilog2 q) (- 1022) - 52)"
  have up: "0 < u" by (simp add: u_def pow2_pos)
  have uh: "u \<le> q / 2" unfolding u_def by (rule pow2_max_exponent_le [OF q1])
  have "(q / u - 1) * u \<le> of_int (round_half_even (q / u)) * u"
    using round_half_even_ge [of "q / u"] up by (simp only: mult_le_cancel_right_pos)
  moreover have "(q / u - 1) * u = q - u" using up by (simp add: field_simps)
  ultimately have "q / 2 \<le> of_int (round_half_even (q / u)) * u" using uh by linarith
  then have "pow2 1024 \<le> of_int (round_half_even (q / u)) * u" using assms big by linarith
  then show ?thesis
    using q0 unfolding double_round_def Let_def u_def by simp
qed

lemma float_of_int_overflow: "float_of_int (10 ^ 309) = Inl OverflowError"
proof -
  have "(2::int) ^ 1025 \<le> 10 ^ 309" by simp
  then have "(of_int (2 ^ 1025) :: rat) \<le> of_int (10 ^ 309)" by (simp only: of_int_le_iff)
  then have "pow2 1025 \<le> of_int (10 ^ 309)" by (simp add: pow2_def)
  then show ?thesis by (simp add: float_of_int_def double_round_overflow del: of_int_power)
qed

lemma round_half_even_nonneg: "0 \<le> q \<Longrightarrow> 0 \<le> round_half_even q"
  by (auto simp: round_half_even_def Let_def)

lemma double_round_bounded:
  assumes "\<bar>q\<bar> \<le> B" and "1 \<le> B" and "2 * B < pow2 1024"
  shows "\<exists>r. double_round q = Fin r \<and> \<bar>r\<bar> \<le> 2 * B"
proof (cases "q = 0")
  case True
  then show ?thesis using assms(2) by (simp add: double_round_def)
next
  case False
  define a where "a = \<bar>q\<bar>"
  have a: "0 < a" "a \<le> B" using False assms(1) by (auto simp: a_def)
  define e where "e = max (ilog2 a) (- 1022)"
  define u where "u = pow2 (e - 52)"
  define r where "r = of_int (round_half_even (a / u)) * u"
  have up: "0 < u" by (simp add: u_def pow2_pos)
  have "pow2 e \<le> max a 1"
  proof (cases "ilog2 a \<le> - 1022")
    case True
    then have "e = - 1022" by (simp add: e_def)
    then have "pow2 e \<le> 1" by (simp add: pow2_def)
    then show ?thesis by simp
  next
    case False
    then have "e = ilog2 a" by (simp add: e_def)
    then show ?thesis using ilog2_lower [OF a(1)] by simp
  qed
  then have pe: "pow2 e \<le> B" using a(2) assms(2) by simp
  have "u = pow2 e * pow2 (- 52)" unfolding u_def by (simp add: pow2_add [symmetric])
  moreover have "pow2 (- 52) \<le> 1" by (simp add: pow2_def)
  ultimately have "u \<le> pow2 e * 1"
    using pow2_pos [of e] by (simp only: mult_le_cancel_left_pos)
  then have u: "u \<le> B" using pe by simp
  have "r \<le> (a / u + 1) * u"
    unfolding r_def using round_half_even_le [of "a / u"] up by (simp only: mult_le_cancel_right_pos)
  also have "\<dots> = a + u" using up by (simp add: field_simps)
  finally have hi: "r \<le> 2 * B" using a(2) u by linarith
  have "0 \<le> a / u" using a(1) up by simp
  then have lo: "0 \<le> r"
    unfolding r_def using round_half_even_nonneg [of "a / u"] up by simp
  have "\<not> pow2 1024 \<le> r" using hi assms(3) by linarith
  then have "double_round q = Fin (if 0 < q then r else - r)"
    using False unfolding double_round_def Let_def a_def [symmetric] e_def [symmetric]
      u_def [symmetric] r_def [symmetric]
    by simp
  moreover have "\<bar>if 0 < q then r else - r\<bar> \<le> 2 * B" using hi lo by simp
  ultimately show ?thesis by blast
qed

lemma py_round2_finite:
  assumes "\<bar>r\<bar> \<le> B" and "1 \<le> B" and "4 * B < pow2 1024"
  shows "\<exists>r'. py_round2 (Fin r) = Inr (Fin r')"
proof -
  let ?m = "round_half_even (r * 100)"
  have "of_int ?m \<le> r * 100 + 1" "r * 100 - 1 \<le> of_int ?m"
    using round_half_even_le [of "r * 100"] round_half_even_ge [of "r * 100"] by simp_all
  then have "\<bar>of_int ?m :: rat\<bar> \<le> \<bar>r\<bar> * 100 + 1" by linarith
  then have "\<bar>of_int ?m / 100 :: rat\<bar> \<le> \<bar>r\<bar> + 1 / 100" by (simp add: abs_divide field_simps)
  then have "\<bar>of_int ?m / 100 :: rat\<bar> \<le> 2 * B" using assms(1,2) by linarith
  from double_round_bounded [OF this] assms(2,3)
  obtain r' where "double_round (of_int ?m / 100) = Fin r'" by (auto simp: mult.assoc)
  then show ?thesis by simp
qed

section \<open>Facts about the normalizers\<close>

declare parse_decoded.simps [simp del] parse_decoded_exit.simps [simp del]

lemma bind_exc_Inl: "bind_exc (Inl e) f = Inl e"
  by (simp add: bind_exc_def)

lemma bind_exc_Inr: "bind_exc (Inr x) f = f x"
  by (simp add: bind_exc_def)

lemma bind_exc_eq_Inr: "bind_exc r f = Inr y \<longleftrightarrow> (\<exists>x. r = Inr x \<and> f x = Inr y)"
  by (cases r) (simp_all add: bind_exc_def)

lemma weight_kg_exist:
  "(if u = ''kg'' then py_float lib wv
    else bind_exc (py_float lib wv) (\<lambda>x. lb_to_kg lib (JFloat x)))
   = bind_exc (py_float lib wv) (\<lambda>x. Inr (if u = ''kg'' then x else float_mul x LB_FACTOR))"
  by (cases "py_float lib wv") (simp_all add: bind_exc_def lb_to_kg_def)

lemma weight_kg_exit:
  "(if u = ''kg'' then py_float lib wv else lb_to_kg lib wv)
   = bind_exc (py_float lib wv) (\<lambda>x. Inr (if u = ''kg'' then x else float_mul x LB_FACTOR))"
  by (cases "py_float lib wv") (simp_all add: bind_exc_def lb_to_kg_def)

text \<open>When \<open>parse_payload\<close> of \<open>mqtt2exist.py\<close> returns, step by step.\<close>

lemma parse_decoded_Inr:
  "parse_decoded lib cfg (JObj d) = Inr (ds, w, ff) \<longleftrightarrow>
     to_local_date lib cfg (date_arg d) = Inr ds \<and> weight_arg d \<noteq> JNull \<and>
     (\<exists>u x. unit_arg lib d = Inr u \<and> py_float lib (weight_arg d) = Inr x \<and>
        py_round2 (if u = ''kg'' then x else float_mul x LB_FACTOR) = Inr w) \<and>
     (if dict_get d ''fat'' = JNull then ff = None
      else \<exists>fx fq r. py_float lib (dict_get d ''fat'') = Inr fx \<and>
             float_div fx (Fin 100) = Inr fq \<and> py_round2 fq = Inr r \<and> ff = Some r)"
  unfolding parse_decoded.simps weight_kg_exist Let_def
  apply (cases "to_local_date lib cfg (date_arg d)"; simp add: bind_exc_Inl bind_exc_Inr)
  apply (cases "weight_arg d = JNull"; simp)
  apply (cases "unit_arg lib d"; simp add: bind_exc_Inl bind_exc_Inr)
  apply (cases "py_float lib (weight_arg d)"; simp add: bind_exc_Inl bind_exc_Inr)
  apply (cases "dict_get d ''fat'' = JNull"; simp add: bind_exc_Inl bind_exc_Inr)
   apply (auto simp: bind_exc_eq_Inr)
  done

lemma parse_decoded_exit_Inr:
  "parse_decoded_exit lib cfg (JObj d) = Inr (ds, w, ff) \<longleftrightarrow>
     to_local_date lib cfg (date_arg d) = Inr ds \<and> weight_arg d \<noteq> JNull \<and>
     (\<exists>u x. unit_arg lib d = Inr u \<and> py_float lib (weight_arg d) = Inr x \<and>
        py_round2 (if u = ''kg'' then x else float_mul x LB_FACTOR) = Inr w) \<and>
     (\<exists>fq r. div_by_100 (dict_get d ''fat'') = Inr fq \<and> py_round2 fq = Inr r \<and> ff = Some r)"
  unfolding parse_decoded_exit.simps weight_kg_exit Let_def
  apply (cases "to_local_date lib cfg (date_arg d)"; simp add: bind_exc_Inl bind_exc_Inr)
  apply (cases "weight_arg d = JNull"; simp)
  apply (cases "unit_arg lib d"; simp add: bind_exc_Inl bind_exc_Inr)
  apply (cases "py_float lib (weight_arg d)"; simp add: bind_exc_Inl bind_exc_Inr)
  apply (auto simp: bind_exc_eq_Inr)
  done

section \<open>Update Mapper\<close>

text \<open>
  C9. For every measurement record the update list starts with the weight update; a fat
  update follows exactly when \<open>fat_fraction\<close> is not \<open>None\<close>; every update carries the
  record's date, so when both are emitted they share the resolved date.
\<close>

theorem build_updates_weight_first:
  "map u_name (build_updates cfg ds w ff) = ATTR_WEIGHT cfg # (if ff = None then [] else [ATTR_FAT cfg])
   \<and> map u_value (build_updates cfg ds w ff) = w # (case ff of None \<Rightarrow> [] | Some f \<Rightarrow> [f])
   \<and> map u_date (build_updates cfg ds w ff) = replicate (if ff = None then 1 else 2) ds"
  by (cases ff) (simp_all add: build_updates_def numeral_2_eq_2)

section \<open>Date Resolver\<close>

lemma insert_offset_colon_bare:
  assumes "sign = CHR ''+'' \<or> sign = CHR ''-''" and "h2 \<noteq> CHR '':''"
  shows "insert_offset_colon (p @ [sign, h1, h2, m1, m2]) = p @ [sign, h1, h2, CHR '':'', m1, m2]"
  using assms by (auto simp: insert_offset_colon_def nth_append)

lemma insert_offset_colon_present:
  "insert_offset_colon (p @ [sign, h1, h2, CHR '':'', m1, m2]) = p @ [sign, h1, h2, CHR '':'', m1, m2]"
  by (simp add: insert_offset_colon_def nth_append)

lemma to_local_date_str:
  "to_local_date lib cfg (JStr s) = to_local_date lib cfg (JStr t)"
  if "s \<noteq> []" "t \<noteq> []" "insert_offset_colon s = insert_offset_colon t"
  using that by (simp add: to_local_date_def)

text \<open>
  C6. An ISO-8601 string whose offset is written without the colon (\<open>\<plusminus>hhmm\<close>) and
  the same string with the colon (\<open>\<plusminus>hh:mm\<close>) resolve alike: to the same date string,
  or to the same error when the library rejects the string.
\<close>

theorem to_local_date_offset_colon:
  assumes "sign = CHR ''+'' \<or> sign = CHR ''-''" and "h2 \<noteq> CHR '':''"
  shows "to_local_date lib cfg (JStr (p @ [sign, h1, h2, m1, m2]))
       = to_local_date lib cfg (JStr (p @ [sign, h1, h2, CHR '':'', m1, m2]))"
  by (rule to_local_date_str)
     (simp_all add: insert_offset_colon_bare [OF assms] insert_offset_colon_present)

theorem to_local_date_offset_colon_witness:
  "to_local_date (fixture_lib JNull) fixture_cfg (JStr ''2025-11-04T07:11-0500'')
     = to_local_date (fixture_lib JNull) fixture_cfg (JStr ''2025-11-04T07:11-05:00'')
   \<and> to_local_date (fixture_lib JNull) fixture_cfg (JStr ''2025-11-04T07:11-05:00'') = Inr ''2025-11-04''"
proof -
  have "to_local_date (fixture_lib JNull) fixture_cfg (JStr (''2025-11-04T07:11'' @ [CHR ''-'', CHR ''0'', CHR ''5'', CHR ''0'', CHR ''0'']))
      = to_local_date (fixture_lib JNull) fixture_cfg (JStr (''2025-11-04T07:11'' @ [CHR ''-'', CHR ''0'', CHR ''5'', CHR '':'', CHR ''0'', CHR ''0'']))"
    by (rule to_local_date_offset_colon) simp_all
  moreover have "to_local_date (fixture_lib JNull) fixture_cfg (JStr ''2025-11-04T07:11-05:00'') = Inr ''2025-11-04''"
    by (simp add: to_local_date_def fixture_lib_def fixture_cfg_def load_config_def
        getenv_default_def bind_exc_def insert_offset_colon_def)
  ultimately show ?thesis by simp
qed

lemma to_local_date_spec_example:
  "to_local_date lib cfg (JStr ''2025-11-04T07:11-0500'')
     = to_local_date lib cfg (JStr ''2025-11-04T07:11-05:00'')"
  by (rule to_local_date_str) (simp_all add: insert_offset_colon_def)

section \<open>Choice of the date field\<close>

lemma date_arg_cases:
  "date_arg d =
     (if py_truthy (dict_get d ''date'') then dict_get d ''date''
      else if py_truthy (dict_get d ''timestamp'') then dict_get d ''timestamp''
      else dict_get d ''ts'')"
  by (simp add: date_arg_def py_or_def)

lemma to_local_date_None:
  "to_local_date lib cfg JNull =
     bind_exc (ZoneInfo lib (LOCAL_TZ cfg)) (\<lambda>tz. Inr (strftime lib (datetime_now lib tz) ''%Y-%m-%d''))"
  by (simp add: to_local_date_def)

text \<open>
  C4 as stated fails: a field that is present with a falsy value (0, the empty string)
  is passed over. With \<open>timestamp\<close> 0 and \<open>ts\<close> 1700000000 the resolver gets
  \<open>ts\<close>; with only \<open>date\<close> 0 it gets \<open>None\<close>, although a field is present.
\<close>

theorem date_arg_first_present_counterexample:
  "map_of [(''timestamp'', JInt 0), (''ts'', JInt 1700000000), (''weight'', JInt 80)] ''date'' = None
   \<and> map_of [(''timestamp'', JInt 0), (''ts'', JInt 1700000000), (''weight'', JInt 80)] ''timestamp'' = Some (JInt 0)
   \<and> date_arg [(''timestamp'', JInt 0), (''ts'', JInt 1700000000), (''weight'', JInt 80)] = JInt 1700000000
   \<and> map_of [(''date'', JInt 0), (''weight'', JInt 80)] ''date'' = Some (JInt 0)
   \<and> date_arg [(''date'', JInt 0), (''weight'', JInt 80)] = JNull"
  by (simp add: date_arg_def py_or_def dict_get_def dict_get_default_def)

text \<open>
  C4, amended. In both files the value passed to the date resolver is the value of the
  first of \<open>date\<close>, \<open>timestamp\<close>, \<open>ts\<close> (in that order) that is truthy, and the value of
  \<open>ts\<close> (\<open>None\<close> when absent) if \<open>date\<close> and \<open>timestamp\<close> are falsy; whenever a
  payload is normalized its date is the resolver's result on that value, and on \<open>None\<close>
  that result is today's date in the configured zone.
\<close>

theorem date_arg_first_truthy:
  assumes "parse_decoded lib cfg (JObj d) = Inr (ds, w, ff)
           \<or> parse_decoded_exit lib cfg (JObj d) = Inr (ds, w, ff)"
  shows "to_local_date lib cfg (date_arg d) = Inr ds
       \<and> date_arg d =
           (if py_truthy (dict_get d ''date'') then dict_get d ''date''
            else if py_truthy (dict_get d ''timestamp'') then dict_get d ''timestamp''
            else dict_get d ''ts'')
       \<and> (date_arg d = JNull \<longleftrightarrow>
            \<not> py_truthy (dict_get d ''date'') \<and> \<not> py_truthy (dict_get d ''timestamp'')
            \<and> dict_get d ''ts'' = JNull)
       \<and> (date_arg d = JNull \<longrightarrow>
            (\<exists>tz. ZoneInfo lib (LOCAL_TZ cfg) = Inr tz
                  \<and> ds = strftime lib (datetime_now lib tz) ''%Y-%m-%d''))"
proof -
  have res: "to_local_date lib cfg (date_arg d) = Inr ds"
    using assms by (auto simp: parse_decoded_Inr parse_decoded_exit_Inr)
  have nul: "date_arg d = JNull \<longleftrightarrow>
            \<not> py_truthy (dict_get d ''date'') \<and> \<not> py_truthy (dict_get d ''timestamp'')
            \<and> dict_get d ''ts'' = JNull"
    by (auto simp: date_arg_cases)
  have today: "\<exists>tz. ZoneInfo lib (LOCAL_TZ cfg) = Inr tz
                  \<and> ds = strftime lib (datetime_now lib tz) ''%Y-%m-%d''"
    if "date_arg d = JNull"
    using res that by (auto simp: to_local_date_None bind_exc_eq_Inr)
  show ?thesis using res nul today date_arg_cases [of d] by blast
qed

theorem date_arg_first_truthy_witness:
  "parse_decoded (fixture_lib JNull) fixture_cfg
      (JObj [(''date'', JStr []), (''ts'', JInt 1700000000), (''weight'', JInt 80)])
     = Inr (''1970-01-01'', Fin 80, None)
   \<and> date_arg [(''date'', JStr []), (''ts'', JInt 1700000000), (''weight'', JInt 80)] = JInt 1700000000
   \<and> to_local_date (fixture_lib JNull) fixture_cfg (JInt 1700000000) = Inr ''1970-01-01''"
proof -
  have p: "parse_decoded (fixture_lib JNull) fixture_cfg
      (JObj [(''date'', JStr []), (''ts'', JInt 1700000000), (''weight'', JInt 80)])
     = Inr (''1970-01-01'', Fin 80, None)"
    by code_simp
  have a: "date_arg [(''date'', JStr []), (''ts'', JInt 1700000000), (''weight'', JInt 80)] = JInt 1700000000"
    by (simp add: date_arg_def py_or_def dict_get_def dict_get_default_def)
  from date_arg_first_truthy [OF disjI1 [OF p]]
  have "to_local_date (fixture_lib JNull) fixture_cfg
          (date_arg [(''date'', JStr []), (''ts'', JInt 1700000000), (''weight'', JInt 80)])
        = Inr ''1970-01-01''"
    by (rule conjunct1)
  then have "to_local_date (fixture_lib JNull) fixture_cfg (JInt 1700000000) = Inr ''1970-01-01''"
    unfolding a .
  then show ?thesis using p a by simp
qed

section \<open>Unit conversion\<close>

lemma lower_char_k: "lower_char CHR ''k'' = CHR ''k''"
  by code_simp

lemma lower_char_g: "lower_char CHR ''g'' = CHR ''g''"
  by code_simp

lemma lower_kg: "map lower_char ''kg'' = ''kg''"
  by (simp add: lower_char_k lower_char_g)

lemma is_ascii_kg: "is_ascii ''kg''"
  by code_simp

lemma str_lower_kg: "str_lower lib ''kg'' = ''kg''"
  by (simp only: str_lower_def is_ascii_kg if_True lower_kg)

lemma py_lower_kg: "py_lower lib (JStr ''kg'') = Inr ''kg''"
  by (simp only: py_lower.simps str_lower_kg)

lemma unit_arg_Inr:
  "unit_arg lib d = Inr u \<longleftrightarrow>
     (if py_truthy (dict_get d ''unit'')
      then \<exists>s. dict_get d ''unit'' = JStr s \<and> s \<noteq> [] \<and> u = str_lower lib s
      else u = ''kg'')"
  by (cases "dict_get d ''unit''") (auto simp: unit_arg_def py_or_def str_lower_kg)

lemma unit_arg_kg:
  assumes "unit_arg lib d = Inr u"
  shows "u \<noteq> ''kg'' \<longleftrightarrow>
         (\<exists>s. dict_get d ''unit'' = JStr s \<and> s \<noteq> [] \<and> str_lower lib s \<noteq> ''kg'')"
  using assms by (auto simp: unit_arg_Inr split: if_splits)

text \<open>
  C1 as stated fails: every non-empty unit string other than a spelling of \<open>kg\<close> sends
  the weight through the converter, not only the pound unit. With weight 10 and unit
  \<open>stone\<close> both files give 4.54, where the claim has \<open>round(10.0, 2)\<close>, which is 10.0.
\<close>

theorem unit_other_than_pound_counterexample:
  "parse_decoded (fixture_lib JNull) fixture_cfg
      (JObj [(''weight'', JInt 10), (''unit'', JStr ''stone''), (''fat'', JInt 20)])
     = Inr (''2025-11-04'', double_round (454 / 100), Some (double_round (20 / 100)))
   \<and> parse_decoded_exit (fixture_lib JNull) fixture_cfg
      (JObj [(''weight'', JInt 10), (''unit'', JStr ''stone''), (''fat'', JInt 20)])
     = Inr (''2025-11-04'', double_round (454 / 100), Some (double_round (20 / 100)))
   \<and> bind_exc (py_float (fixture_lib JNull) (JInt 10)) py_round2 = Inr (Fin 10)
   \<and> double_round (454 / 100) \<noteq> Fin 10"
  by code_simp

text \<open>
  C1, amended. In both files the converter runs if and only if the \<open>unit\<close> field is a
  non-empty string whose lower-case form is not \<open>kg\<close>; when \<open>unit\<close> is absent, null,
  empty or a spelling of \<open>kg\<close> the weight is taken as kilograms, so that \<open>weight_kg\<close>
  is the input weight rounded to 2 decimals. (A unit that is truthy and not a string
  makes normalization fail.)
\<close>

theorem unit_conversion_rule:
  assumes "parse_decoded lib cfg (JObj d) = Inr (ds, w, ff)
           \<or> parse_decoded_exit lib cfg (JObj d) = Inr (ds, w, ff)"
  shows "\<exists>x. py_float lib (weight_arg d) = Inr x \<and>
           (if \<exists>s. dict_get d ''unit'' = JStr s \<and> s \<noteq> [] \<and> str_lower lib s \<noteq> ''kg''
            then bind_exc (lb_to_kg lib (JFloat x)) py_round2 = Inr w
            else py_round2 x = Inr w)"
proof -
  from assms obtain u x where u: "unit_arg lib d = Inr u"
    and x: "py_float lib (weight_arg d) = Inr x"
    and w: "py_round2 (if u = ''kg'' then x else float_mul x LB_FACTOR) = Inr w"
    by (auto simp: parse_decoded_Inr parse_decoded_exit_Inr)
  show ?thesis
  proof (cases "u = ''kg''")
    case True
    then show ?thesis using x w unit_arg_kg [OF u] by auto
  next
    case False
    then have "bind_exc (lb_to_kg lib (JFloat x)) py_round2 = Inr w"
      using w by (simp add: lb_to_kg_def bind_exc_Inr)
    then show ?thesis using x False unit_arg_kg [OF u] by auto
  qed
qed

theorem unit_conversion_rule_witness:
  "parse_decoded (fixture_lib JNull) fixture_cfg
      (JObj [(''date'', JStr ''2025-11-04T07:11-0500''), (''weight'', JFloat (double_round (1865 / 10))),
             (''unit'', JStr ''lb''), (''fat'', JFloat (double_round (2422 / 100)))])
     = Inr (''2025-11-04'', double_round (8459 / 100), Some (double_round (24 / 100)))
   \<and> bind_exc (lb_to_kg (fixture_lib JNull) (JFloat (double_round (1865 / 10)))) py_round2
     = Inr (double_round (8459 / 100))"
proof -
  let ?d = "[(''date'', JStr ''2025-11-04T07:11-0500''), (''weight'', JFloat (double_round (1865 / 10))),
             (''unit'', JStr ''lb''), (''fat'', JFloat (double_round (2422 / 100)))]"
  have p: "parse_decoded (fixture_lib JNull) fixture_cfg (JObj ?d)
     = Inr (''2025-11-04'', double_round (8459 / 100), Some (double_round (24 / 100)))"
    by code_simp
  have wa: "weight_arg ?d = JFloat (double_round (1865 / 10))"
    by (simp add: weight_arg_def dict_get_def dict_get_default_def)
  have "dict_get ?d ''unit'' = JStr ''lb''"
    by (simp add: dict_get_def dict_get_default_def)
  moreover have "str_lower (fixture_lib JNull) ''lb'' \<noteq> ''kg''"
    by code_simp
  ultimately have un: "\<exists>s. dict_get ?d ''unit'' = JStr s \<and> s \<noteq> [] \<and> str_lower (fixture_lib JNull) s \<noteq> ''kg''"
    by blast
  from unit_conversion_rule [OF disjI1 [OF p]] obtain x
    where "py_float (fixture_lib JNull) (weight_arg ?d) = Inr x"
      and "bind_exc (lb_to_kg (fixture_lib JNull) (JFloat x)) py_round2 = Inr (double_round (8459 / 100))"
    using un by auto
  then show ?thesis using p wa by simp
qed

text \<open>
  A unit is compared after \<open>str.lower\<close>, Unicode included: \<open>Kg\<close> written with the
  Kelvin sign (U+212A) lowers to \<open>kg\<close>, and both files take the weight as kilograms.
\<close>

lemma kelvin_unit_is_kg:
  "parse_decoded (fixture_lib JNull) fixture_cfg
      (JObj [(''weight'', JInt 10), (''unit'', JStr [CHR 0xE2, CHR 0x84, CHR 0xAA, CHR ''g'']),
             (''fat'', JInt 20)])
     = Inr (''2025-11-04'', Fin 10, Some (double_round (20 / 100)))
   \<and> parse_decoded_exit (fixture_lib JNull) fixture_cfg
      (JObj [(''weight'', JInt 10), (''unit'', JStr [CHR 0xE2, CHR 0x84, CHR 0xAA, CHR ''g'']),
             (''fat'', JInt 20)])
     = Inr (''2025-11-04'', Fin 10, Some (double_round (20 / 100)))"
  by code_simp

section \<open>Body fat\<close>

lemma float_of_int_exact: "\<bar>n\<bar> \<le> 2 ^ 53 \<Longrightarrow> float_of_int n = Inr (Fin (of_int n))"
  by (simp add: float_of_int_def double_round_of_int_exact)

lemma int_true_div_100:
  assumes "\<bar>n\<bar> \<le> 2 ^ 53"
  shows "int_true_div n 100 = Inr (double_round (of_int n / 100))"
proof -
  have "\<bar>of_int n :: rat\<bar> \<le> 2 ^ 53"
    using assms by (metis of_int_abs of_int_le_iff of_int_numeral of_int_power)
  then have "\<bar>of_int n / 100 :: rat\<bar> \<le> 2 ^ 1000"
    by (simp add: abs_divide) 
  from double_round_finite [OF this] show ?thesis
    by (auto simp: int_true_div_def)
qed

text \<open>
  For a fat value that is a float, or an int of magnitude at most \<open>2^53\<close>, both files
  divide the same float by 100.
\<close>

lemma fat_division_agrees:
  assumes "number_value v = Some q" and "\<forall>n. v = JInt n \<longrightarrow> \<bar>n\<bar> \<le> 2 ^ 53"
  shows "bind_exc (py_float lib v) (\<lambda>x. float_div x (Fin 100)) = Inr (double_round (q / 100))"
    and "div_by_100 v = Inr (double_round (q / 100))"
  using assms
  by (cases v rule: number_value.cases;
      simp add: float_of_int_exact int_true_div_100 bind_exc_Inr)+

lemma fixture_today:
  "to_local_date (fixture_lib j) fixture_cfg JNull = Inr ''2025-11-04''"
  by (simp add: to_local_date_def fixture_lib_def bind_exc_def)

lemma py_round2_80: "py_round2 (Fin 80) = Inr (Fin 80)"
  by code_simp

lemma double_24_22: "double_round (2422 / 100) = Fin (852165491991511 / 35184372088832)"
  by code_simp

lemma py_round2_fraction_ok:
  assumes "0 \<le> f" and "f \<le> 100"
  shows "\<exists>r. py_round2 (double_round (f / 100)) = Inr (Fin r)"
proof -
  have "\<bar>f / 100\<bar> \<le> 1" using assms by simp
  moreover have "2 * (1::rat) < pow2 1024" by (simp add: pow2_def)
  ultimately obtain q where q: "double_round (f / 100) = Fin q" and qb: "\<bar>q\<bar> \<le> 2 * 1"
    using double_round_bounded [of "f / 100" 1] by auto
  have "4 * (2::rat) < pow2 1024" by (simp add: pow2_def)
  then obtain r where "py_round2 (Fin q) = Inr (Fin r)"
    using py_round2_finite [of q 2] qb by auto
  then show ?thesis using q by auto
qed

text \<open>
  C8. When the \<open>fat\<close> field is a number \<open>f\<close> in \<open>[0, 100]\<close>, \<open>round(f / 100, 2)\<close>
  (the float quotient of \<open>f\<close> by 100, rounded to two decimals) is defined; any record
  that either file returns has it as \<open>fat_fraction\<close>; and both files do return such a
  record whenever the date, the weight and the unit of the payload are accepted. The
  percentage itself is never the result.
\<close>

theorem fat_fraction_rounding:
  assumes "number_value (dict_get d ''fat'') = Some f" and "0 \<le> f" and "f \<le> 100"
  shows "\<exists>r. py_round2 (double_round (f / 100)) = Inr r
       \<and> (\<forall>ds w ff. parse_decoded lib cfg (JObj d) = Inr (ds, w, ff)
                    \<or> parse_decoded_exit lib cfg (JObj d) = Inr (ds, w, ff)
              \<longrightarrow> ff = Some r)
       \<and> (\<forall>ds u x w. to_local_date lib cfg (date_arg d) = Inr ds \<and> weight_arg d \<noteq> JNull
                \<and> unit_arg lib d = Inr u \<and> py_float lib (weight_arg d) = Inr x
                \<and> py_round2 (if u = ''kg'' then x else float_mul x LB_FACTOR) = Inr w
              \<longrightarrow> parse_decoded lib cfg (JObj d) = Inr (ds, w, Some r)
                \<and> parse_decoded_exit lib cfg (JObj d) = Inr (ds, w, Some r))"
proof -
  let ?v = "dict_get d ''fat''"
  have small: "\<forall>n. ?v = JInt n \<longrightarrow> \<bar>n\<bar> \<le> 2 ^ 53"
  proof (intro allI impI)
    fix n assume "?v = JInt n"
    then have "f = of_int n" using assms(1) by simp
    then have "0 \<le> n" "n \<le> 100" using assms(2,3) by simp_all
    then show "\<bar>n\<bar> \<le> 2 ^ 53" by simp
  qed
  have nn: "?v \<noteq> JNull" using assms(1) by auto
  note agree = fat_division_agrees [OF assms(1) small]
  obtain r0 where r: "py_round2 (double_round (f / 100)) = Inr (Fin r0)"
    using py_round2_fraction_ok [OF assms(2,3)] by blast
  have a: "ff = Some (Fin r0)"
    if "parse_decoded lib cfg (JObj d) = Inr (ds, w, ff)
        \<or> parse_decoded_exit lib cfg (JObj d) = Inr (ds, w, ff)" for ds w ff
    using that
  proof
    assume "parse_decoded lib cfg (JObj d) = Inr (ds, w, ff)"
    then obtain fx fq r' where "py_float lib ?v = Inr fx" "float_div fx (Fin 100) = Inr fq"
      "py_round2 fq = Inr r'" "ff = Some r'"
      using nn by (auto simp: parse_decoded_Inr)
    then show ?thesis using agree(1) [of lib] r by (simp add: bind_exc_Inr)
  next
    assume "parse_decoded_exit lib cfg (JObj d) = Inr (ds, w, ff)"
    then obtain fq r' where "div_by_100 ?v = Inr fq" "py_round2 fq = Inr r'" "ff = Some r'"
      by (auto simp: parse_decoded_exit_Inr)
    then show ?thesis using agree(2) r by simp
  qed
  have b: "parse_decoded lib cfg (JObj d) = Inr (ds, w, Some (Fin r0))
         \<and> parse_decoded_exit lib cfg (JObj d) = Inr (ds, w, Some (Fin r0))"
    if "to_local_date lib cfg (date_arg d) = Inr ds \<and> weight_arg d \<noteq> JNull
        \<and> unit_arg lib d = Inr u \<and> py_float lib (weight_arg d) = Inr x
        \<and> py_round2 (if u = ''kg'' then x else float_mul x LB_FACTOR) = Inr w" for ds u x w
  proof -
    obtain fx where fx: "py_float lib ?v = Inr fx"
      and fd: "float_div fx (Fin 100) = Inr (double_round (f / 100))"
      using agree(1) [of lib] by (auto simp: bind_exc_eq_Inr)
    have "parse_decoded lib cfg (JObj d) = Inr (ds, w, Some (Fin r0))"
      unfolding parse_decoded_Inr using that nn fx fd r by auto
    moreover have "parse_decoded_exit lib cfg (JObj d) = Inr (ds, w, Some (Fin r0))"
      unfolding parse_decoded_exit_Inr using that agree(2) r by auto
    ultimately show ?thesis by blast
  qed
  show ?thesis using r a b by blast
qed

theorem fat_fraction_rounding_witness:
  "double_round (2422 / 100) = Fin (852165491991511 / 35184372088832)
   \<and> py_round2 (double_round (852165491991511 / 35184372088832 / 100)) = Inr (double_round (24 / 100))
   \<and> parse_decoded (fixture_lib JNull) fixture_cfg
      (JObj [(''weight'', JFloat (Fin 80)), (''fat'', JFloat (Fin (852165491991511 / 35184372088832)))])
     = Inr (''2025-11-04'', Fin 80, Some (double_round (24 / 100)))
   \<and> parse_decoded_exit (fixture_lib JNull) fixture_cfg
      (JObj [(''weight'', JFloat (Fin 80)), (''fat'', JFloat (Fin (852165491991511 / 35184372088832)))])
     = Inr (''2025-11-04'', Fin 80, Some (double_round (24 / 100)))"
proof -
  let ?d = "[(''weight'', JFloat (Fin 80)), (''fat'', JFloat (Fin (852165491991511 / 35184372088832)))]"
  let ?lib = "fixture_lib JNull"
  have n: "number_value (dict_get ?d ''fat'') = Some (852165491991511 / 35184372088832)"
    by (simp add: dict_get_def dict_get_default_def)
  have rq: "py_round2 (double_round (852165491991511 / 35184372088832 / 100)) = Inr (double_round (24 / 100))"
    by code_simp
  have h: "to_local_date ?lib fixture_cfg (date_arg ?d) = Inr ''2025-11-04'' \<and> weight_arg ?d \<noteq> JNull
        \<and> unit_arg ?lib ?d = Inr ''kg'' \<and> py_float ?lib (weight_arg ?d) = Inr (Fin 80)
        \<and> py_round2 (if ''kg'' = ''kg'' then Fin 80 else float_mul (Fin 80) LB_FACTOR) = Inr (Fin 80)"
  proof (intro conjI)
    show "to_local_date ?lib fixture_cfg (date_arg ?d) = Inr ''2025-11-04''"
      by (simp add: date_arg_def py_or_def dict_get_def dict_get_default_def fixture_today)
    show "weight_arg ?d \<noteq> JNull" "py_float ?lib (weight_arg ?d) = Inr (Fin 80)"
      by (simp_all add: weight_arg_def dict_get_def dict_get_default_def)
    show "unit_arg ?lib ?d = Inr ''kg''"
      by (simp add: unit_arg_def py_or_def dict_get_def dict_get_default_def str_lower_kg)
    show "py_round2 (if ''kg'' = ''kg'' then Fin 80 else float_mul (Fin 80) LB_FACTOR) = Inr (Fin 80)"
      by (simp only: refl if_True py_round2_80)
  qed
  from fat_fraction_rounding [OF n, of ?lib fixture_cfg] obtain r
    where r: "py_round2 (double_round (852165491991511 / 35184372088832 / 100)) = Inr r"
      and b: "\<forall>ds u x w. to_local_date ?lib fixture_cfg (date_arg ?d) = Inr ds \<and> weight_arg ?d \<noteq> JNull
                \<and> unit_arg ?lib ?d = Inr u \<and> py_float ?lib (weight_arg ?d) = Inr x
                \<and> py_round2 (if u = ''kg'' then x else float_mul x LB_FACTOR) = Inr w
              \<longrightarrow> parse_decoded ?lib fixture_cfg (JObj ?d) = Inr (ds, w, Some r)
                \<and> parse_decoded_exit ?lib fixture_cfg (JObj ?d) = Inr (ds, w, Some r)"
    by auto
  have "r = double_round (24 / 100)" using r rq by simp
  moreover from b h have "parse_decoded ?lib fixture_cfg (JObj ?d) = Inr (''2025-11-04'', Fin 80, Some r)
     \<and> parse_decoded_exit ?lib fixture_cfg (JObj ?d) = Inr (''2025-11-04'', Fin 80, Some r)"
    by blast
  ultimately show ?thesis using double_24_22 rq by simp
qed

section \<open>The two normalizers compared\<close>

lemma py_round2_error: "py_round2 x = Inl e \<Longrightarrow> e = OverflowError"
  by (cases x) (auto split: pyfloat.splits)

lemma round_order:
  "bind_exc (py_round2 a) (\<lambda>r. bind_exc (py_round2 b) (\<lambda>w. Inr (ds, w, Some r)))
   = bind_exc (py_round2 b) (\<lambda>w. bind_exc (py_round2 a) (\<lambda>r. Inr (ds, w, Some r)))"
  by (cases "py_round2 a"; cases "py_round2 b")
     (auto simp: bind_exc_Inl bind_exc_Inr dest: py_round2_error)

text \<open>
  When the first steps on the fat value come to the same float (or error) in both files,
  the files agree on the whole payload.
\<close>

lemma parse_decoded_agree:
  assumes "dict_get d ''fat'' \<noteq> JNull"
    and "bind_exc (py_float lib (dict_get d ''fat'')) (\<lambda>x. float_div x (Fin 100))
         = div_by_100 (dict_get d ''fat'')"
  shows "parse_decoded lib cfg (JObj d) = parse_decoded_exit lib cfg (JObj d)"
proof -
  let ?q = "div_by_100 (dict_get d ''fat'')"
  have fat: "bind_exc (py_float lib (dict_get d ''fat''))
               (\<lambda>x. bind_exc (float_div x (Fin 100)) (\<lambda>fq. bind_exc (py_round2 fq) (\<lambda>r. Inr (Some r))))
             = bind_exc ?q (\<lambda>fq. bind_exc (py_round2 fq) (\<lambda>r. Inr (Some r)))"
    unfolding assms(2) [symmetric]
    by (cases "py_float lib (dict_get d ''fat'')") (simp_all add: bind_exc_Inl bind_exc_Inr)
  have tail: "bind_exc (bind_exc ?q (\<lambda>fq. bind_exc (py_round2 fq) (\<lambda>r. Inr (Some r))))
                (\<lambda>ff. bind_exc (py_round2 wk) (\<lambda>w. Inr (ds, w, ff)))
            = bind_exc ?q (\<lambda>fq. bind_exc (py_float lib (JFloat fq)) (\<lambda>fq.
                bind_exc (py_round2 wk) (\<lambda>w. bind_exc (py_round2 fq) (\<lambda>r. Inr (ds, w, Some r)))))"
    for wk ds
  proof (cases ?q)
    case (Inl e)
    then show ?thesis by (simp add: bind_exc_Inl)
  next
    case (Inr fq)
    have "bind_exc (bind_exc (py_round2 fq) (\<lambda>r. Inr (Some r)))
            (\<lambda>ff. bind_exc (py_round2 wk) (\<lambda>w. Inr (ds, w, ff)))
          = bind_exc (py_round2 fq) (\<lambda>r. bind_exc (py_round2 wk) (\<lambda>w. Inr (ds, w, Some r)))"
      by (cases "py_round2 fq") (simp_all add: bind_exc_Inl bind_exc_Inr)
    then show ?thesis using Inr by (simp add: bind_exc_Inr round_order)
  qed
  have ne: "(dict_get d ''fat'' \<noteq> JNull) = True" using assms(1) by simp
  show ?thesis
    unfolding parse_decoded.simps parse_decoded_exit.simps weight_kg_exist weight_kg_exit Let_def
    by (simp only: fat ne if_True tail)
qed

lemma float_div_100_ok: "\<exists>y. float_div x (Fin 100) = Inr y"
  by (cases x) simp_all

lemma fat_first_steps_agree:
  assumes "(\<exists>x. v = JFloat x) \<or> (\<exists>n. v = JInt n \<and> \<bar>n\<bar> \<le> 2 ^ 53)"
  shows "bind_exc (py_float lib v) (\<lambda>x. float_div x (Fin 100)) = div_by_100 v"
  using assms
  by (auto simp: bind_exc_Inr float_of_int_exact int_true_div_100)

lemma parse_decoded_exit_no_number:
  assumes "dict_get d ''fat'' = JNull \<or> (\<exists>s. dict_get d ''fat'' = JStr s)"
    and "to_local_date lib cfg (date_arg d) = Inr ds" and "weight_arg d \<noteq> JNull"
    and "unit_arg lib d = Inr u" and "py_float lib (weight_arg d) = Inr x"
  shows "parse_decoded_exit lib cfg (JObj d) = Inl TypeError"
  unfolding parse_decoded_exit.simps weight_kg_exit Let_def
  using assms by (auto simp: bind_exc_Inl bind_exc_Inr)

lemma parse_decoded_no_number:
  assumes "dict_get d ''fat'' = JNull \<or> (\<exists>s. dict_get d ''fat'' = JStr s)"
    and "to_local_date lib cfg (date_arg d) = Inr ds" and "weight_arg d \<noteq> JNull"
    and "unit_arg lib d = Inr u" and "py_float lib (weight_arg d) = Inr x"
  shows "parse_decoded lib cfg (JObj d) \<noteq> Inl TypeError"
proof -
  let ?wk = "if u = ''kg'' then x else float_mul x LB_FACTOR"
  have w: "bind_exc (py_round2 ?wk) f \<noteq> Inl TypeError" if "\<And>y. f y \<noteq> Inl TypeError" for f
    using that by (cases "py_round2 ?wk") (auto simp: bind_exc_Inl bind_exc_Inr dest: py_round2_error)
  from assms(1) show ?thesis
  proof
    assume "dict_get d ''fat'' = JNull"
    then show ?thesis
      unfolding parse_decoded.simps weight_kg_exist Let_def
      using assms(2-5) w [of "\<lambda>w. Inr (ds, w, None)"]
      by (simp add: bind_exc_Inl bind_exc_Inr)
  next
    assume "\<exists>s. dict_get d ''fat'' = JStr s"
    then obtain s where s: "dict_get d ''fat'' = JStr s" by blast
    show ?thesis
    proof (cases "float_of_str lib s")
      case None
      then show ?thesis
        unfolding parse_decoded.simps weight_kg_exist Let_def
        using assms(2-5) s by (simp add: bind_exc_Inl bind_exc_Inr)
    next
      case (Some fx)
      obtain fq where fq: "float_div fx (Fin 100) = Inr fq" using float_div_100_ok by blast
      show ?thesis
      proof (cases "py_round2 fq")
        case (Inl e)
        then have "e = OverflowError" by (rule py_round2_error)
        then show ?thesis
          unfolding parse_decoded.simps weight_kg_exist Let_def
          using assms(2-5) s Some fq Inl by (simp add: bind_exc_Inl bind_exc_Inr)
      next
        case (Inr r)
        then show ?thesis
          unfolding parse_decoded.simps weight_kg_exist Let_def
          using assms(2-5) s Some fq w [of "\<lambda>w. Inr (ds, w, Some r)"]
          by (simp add: bind_exc_Inl bind_exc_Inr)
      qed
    qed
  qed
qed

text \<open>
  C10 as stated fails on large integers. For \<open>fat\<close> equal to \<open>2**53 + 1\<close>,
  \<open>mqtt2exist.py\<close> rounds twice (\<open>float(fat)\<close> is \<open>2**53\<close>, then the quotient by
  100.0) and \<open>mqtt2exit.py\<close> once (\<open>fat / 100\<close> on the int), and the two fractions
  differ: 90071992547409.921875 against 90071992547409.9375.
\<close>

theorem normalizers_equivalent_counterexample:
  "parse_decoded (fixture_lib JNull) fixture_cfg
      (JObj [(''weight'', JInt 80), (''fat'', JInt 9007199254740993)])
     = Inr (''2025-11-04'', Fin 80, Some (Fin (5764607523034235 / 64)))
   \<and> parse_decoded_exit (fixture_lib JNull) fixture_cfg
      (JObj [(''weight'', JInt 80), (''fat'', JInt 9007199254740993)])
     = Inr (''2025-11-04'', Fin 80, Some (Fin (1441151880758559 / 16)))"
  by code_simp

text \<open>
  C10, amended. Under the same configuration and library the two normalizers give the
  same result (the same tuple or the same error) for every payload whose \<open>fat\<close> field
  is a JSON float, or a JSON integer of magnitude at most \<open>2^53\<close>. When \<open>fat\<close> is
  absent, null or a string, and the date, the weight and the unit are accepted,
  \<open>mqtt2exit.py\<close> raises TypeError and \<open>mqtt2exist.py\<close> does not.
\<close>

theorem normalizers_agree_on_numbers:
  "((\<exists>y. dict_get d ''fat'' = JFloat y) \<or> (\<exists>n. dict_get d ''fat'' = JInt n \<and> \<bar>n\<bar> \<le> 2 ^ 53)
      \<longrightarrow> parse_decoded lib cfg (JObj d) = parse_decoded_exit lib cfg (JObj d))
   \<and> ((dict_get d ''fat'' = JNull \<or> (\<exists>s. dict_get d ''fat'' = JStr s))
        \<and> to_local_date lib cfg (date_arg d) = Inr ds \<and> weight_arg d \<noteq> JNull
        \<and> unit_arg lib d = Inr u \<and> py_float lib (weight_arg d) = Inr x
      \<longrightarrow> parse_decoded_exit lib cfg (JObj d) = Inl TypeError
          \<and> parse_decoded lib cfg (JObj d) \<noteq> Inl TypeError)"
proof (intro conjI impI)
  assume a: "(\<exists>y. dict_get d ''fat'' = JFloat y) \<or> (\<exists>n. dict_get d ''fat'' = JInt n \<and> \<bar>n\<bar> \<le> 2 ^ 53)"
  then have "dict_get d ''fat'' \<noteq> JNull" by auto
  then show "parse_decoded lib cfg (JObj d) = parse_decoded_exit lib cfg (JObj d)"
    using fat_first_steps_agree [OF a] by (rule parse_decoded_agree)
next
  assume "(dict_get d ''fat'' = JNull \<or> (\<exists>s. dict_get d ''fat'' = JStr s))
        \<and> to_local_date lib cfg (date_arg d) = Inr ds \<and> weight_arg d \<noteq> JNull
        \<and> unit_arg lib d = Inr u \<and> py_float lib (weight_arg d) = Inr x"
  then show "parse_decoded_exit lib cfg (JObj d) = Inl TypeError"
    by (intro parse_decoded_exit_no_number) blast+
next
  assume "(dict_get d ''fat'' = JNull \<or> (\<exists>s. dict_get d ''fat'' = JStr s))
        \<and> to_local_date lib cfg (date_arg d) = Inr ds \<and> weight_arg d \<noteq> JNull
        \<and> unit_arg lib d = Inr u \<and> py_float lib (weight_arg d) = Inr x"
  then show "parse_decoded lib cfg (JObj d) \<noteq> Inl TypeError"
    by (intro parse_decoded_no_number) blast+
qed

theorem normalizers_agree_on_numbers_witness:
  "parse_decoded (fixture_lib JNull) fixture_cfg (JObj [(''weight'', JInt 80), (''fat'', JInt 20)])
     = parse_decoded_exit (fixture_lib JNull) fixture_cfg (JObj [(''weight'', JInt 80), (''fat'', JInt 20)])
   \<and> parse_decoded_exit (fixture_lib JNull) fixture_cfg (JObj [(''weight'', JInt 80)]) = Inl TypeError
   \<and> parse_decoded (fixture_lib JNull) fixture_cfg (JObj [(''weight'', JInt 80)]) \<noteq> Inl TypeError"
proof -
  let ?d1 = "[(''weight'', JInt 80), (''fat'', JInt 20)]"
  let ?d2 = "[(''weight'', JInt 80)]"
  have h1: "(\<exists>y. dict_get ?d1 ''fat'' = JFloat y) \<or> (\<exists>n. dict_get ?d1 ''fat'' = JInt n \<and> \<bar>n\<bar> \<le> 2 ^ 53)"
    by (simp add: dict_get_def dict_get_default_def)
  have h2: "(dict_get ?d2 ''fat'' = JNull \<or> (\<exists>s. dict_get ?d2 ''fat'' = JStr s))
        \<and> to_local_date (fixture_lib JNull) fixture_cfg (date_arg ?d2) = Inr ''2025-11-04''
        \<and> weight_arg ?d2 \<noteq> JNull
        \<and> unit_arg (fixture_lib JNull) ?d2 = Inr ''kg'' \<and> py_float (fixture_lib JNull) (weight_arg ?d2) = Inr (Fin 80)"
    by (simp add: dict_get_def dict_get_default_def date_arg_def py_or_def fixture_today
        weight_arg_def unit_arg_def str_lower_kg float_of_int_exact)
  from normalizers_agree_on_numbers [of ?d1 "fixture_lib JNull" fixture_cfg] h1
  have a: "parse_decoded (fixture_lib JNull) fixture_cfg (JObj ?d1)
         = parse_decoded_exit (fixture_lib JNull) fixture_cfg (JObj ?d1)"
    by blast
  from normalizers_agree_on_numbers [of ?d2 "fixture_lib JNull" fixture_cfg "''2025-11-04''" "''kg''" "Fin 80"] h2
  have b: "parse_decoded_exit (fixture_lib JNull) fixture_cfg (JObj ?d2) = Inl TypeError
     \<and> parse_decoded (fixture_lib JNull) fixture_cfg (JObj ?d2) \<noteq> Inl TypeError"
    by blast
  from a b show ?thesis by blast
qed

section \<open>Payloads without a fat field\<close>

lemma fixture_loads: "json_loads (fixture_lib j) s = Inr j"
  by (simp add: fixture_lib_def)

text \<open>In \<open>mqtt2exist.py\<close> a payload without \<open>fat\<close> is normalized, with one update.\<close>

lemma parse_decoded_fat_absent:
  assumes "dict_get d ''fat'' = JNull"
    and "to_local_date lib cfg (date_arg d) = Inr ds" and "weight_arg d \<noteq> JNull"
    and "unit_arg lib d = Inr u" and "py_float lib (weight_arg d) = Inr x"
    and "py_round2 (if u = ''kg'' then x else float_mul x LB_FACTOR) = Inr w"
  shows "parse_decoded lib cfg (JObj d) = Inr (ds, w, None)"
    and "length (build_updates cfg ds w None) = 1"
  using assms by (auto simp: parse_decoded_Inr build_updates_def)

text \<open>In \<open>mqtt2exit.py\<close> it never is: \<open>None / 100\<close> raises before the test for \<open>None\<close>.\<close>

lemma parse_decoded_exit_fat_absent:
  assumes "dict_get d ''fat'' = JNull"
  shows "parse_decoded_exit lib cfg (JObj d) \<noteq> Inr t"
  using assms by (cases t) (auto simp: parse_decoded_exit_Inr)

text \<open>
  C2 holds for \<open>mqtt2exist.py\<close> and fails for \<open>mqtt2exit.py\<close>. On the payload
  \<^verbatim>\<open>{"weight": 80.0}\<close> the first file returns the record with \<open>fat_fraction\<close>
  \<open>None\<close> and posts one update; the second raises TypeError and posts nothing.
\<close>

theorem fat_absent_exit_raises:
  "parse_decoded (fixture_lib JNull) fixture_cfg (JObj [(''weight'', JFloat (Fin 80))])
     = Inr (''2025-11-04'', Fin 80, None)
   \<and> build_updates fixture_cfg ''2025-11-04'' (Fin 80) None
     = [\<lparr> u_name = ''weight'', u_date = ''2025-11-04'', u_value = Fin 80 \<rparr>]
   \<and> parse_decoded_exit (fixture_lib JNull) fixture_cfg (JObj [(''weight'', JFloat (Fin 80))])
     = Inl TypeError
   \<and> filter is_http_post
        (fst (on_message_exit (fixture_lib (JObj [(''weight'', JFloat (Fin 80))])) fixture_cfg
               \<lparr> topic = ''openScaleSync/measurements/last'', payload_text = ''{\"weight\": 80.0}'' \<rparr>))
     = []"
proof -
  let ?d = "[(''weight'', JFloat (Fin 80))]"
  have a: "parse_decoded (fixture_lib JNull) fixture_cfg (JObj ?d) = Inr (''2025-11-04'', Fin 80, None)"
    by code_simp
  have b: "build_updates fixture_cfg ''2025-11-04'' (Fin 80) None
     = [\<lparr> u_name = ''weight'', u_date = ''2025-11-04'', u_value = Fin 80 \<rparr>]"
    by (simp add: build_updates_def fixture_cfg_def load_config_def getenv_default_def)
  have c: "parse_decoded_exit (fixture_lib j) fixture_cfg (JObj ?d) = Inl TypeError" for j
    by (rule parse_decoded_exit_no_number [where ds = "''2025-11-04''" and u = "''kg''" and x = "Fin 80"])
       (simp_all add: dict_get_def dict_get_default_def date_arg_def py_or_def fixture_today
          weight_arg_def unit_arg_def str_lower_kg)
  have d: "filter is_http_post
        (fst (on_message_exit (fixture_lib (JObj ?d)) fixture_cfg
               \<lparr> topic = ''openScaleSync/measurements/last'', payload_text = ''{\"weight\": 80.0}'' \<rparr>))
     = []"
    by (simp add: on_message_exit_def parse_payload_exit_def fixture_loads c except_log_def
          bind_exc_def Let_def)
  from a b c d show ?thesis by blast
qed

section \<open>Handler and loop\<close>

lemma except_log_None: "snd (except_log r) = None"
  by (cases r) (simp add: except_log_def split: option.splits)

lemma on_message_returns: "snd (on_message lib cfg msg) = None"
  by (simp add: on_message_def Let_def except_log_None)

lemma on_message_exit_returns: "snd (on_message_exit lib cfg msg) = None"
  by (simp add: on_message_exit_def Let_def except_log_None)

lemma loop_forever_total:
  assumes "\<And>m. snd (handler m) = None"
  shows "snd (loop_forever handler ms) = None
       \<and> fst (loop_forever handler ms) = concat (map (\<lambda>m. fst (handler m)) ms)"
proof (induction ms)
  case Nil
  show ?case by simp
next
  case (Cons m ms)
  obtain es where es: "handler m = (es, None)"
    using assms [of m] by (cases "handler m") simp
  show ?case using Cons es by (simp add: Let_def)
qed

lemma post_exist_no_message_log: "filter is_message_log (fst (post_exist lib cfg ds w ff)) = []"
  by (simp add: post_exist_def Let_def split: sum.splits option.splits)

lemma post_exist_exit_no_message_log: "filter is_message_log (fst (post_exist_exit lib cfg ds w ff)) = []"
  by (simp add: post_exist_exit_def Let_def split: sum.splits option.splits)

lemma except_log_fst:
  "fst (except_log r) = fst r @ (case snd r of None \<Rightarrow> [] | Some e \<Rightarrow> [Log (Error_processing_failed e)])"
  by (cases r) (simp add: except_log_def split: option.splits)

lemma on_message_failure_logged:
  assumes "parse_payload lib cfg (payload_text msg) = Inl e"
  shows "fst (on_message lib cfg msg)
       = [Log (Info_mqtt_message (topic msg) (payload_text msg)), Log (Error_processing_failed e)]"
  using assms by (simp add: on_message_def Let_def except_log_def)

lemma on_message_exit_failure_logged:
  assumes "parse_payload_exit lib cfg (payload_text msg) = Inl e"
  shows "fst (on_message_exit lib cfg msg)
       = [Log (Info_mqtt_message (topic msg) (payload_text msg)), Log (Error_processing_failed e)]"
  using assms by (simp add: on_message_exit_def Let_def except_log_def)

lemma on_message_post_failure_logged:
  assumes "parse_payload lib cfg (payload_text msg) = Inr (ds, w, ff)"
    and "snd (post_exist lib cfg ds w ff) = Some e"
  shows "last (fst (on_message lib cfg msg)) = Log (Error_processing_failed e)"
  using assms by (simp add: on_message_def Let_def except_log_def)

lemma on_message_exit_post_failure_logged:
  assumes "parse_payload_exit lib cfg (payload_text msg) = Inr (ds, w, ff)"
    and "snd (post_exist_exit lib cfg ds w ff) = Some e"
  shows "last (fst (on_message_exit lib cfg msg)) = Log (Error_processing_failed e)"
  using assms by (cases "post_exist_exit lib cfg ds w ff") (simp add: on_message_exit_def Let_def except_log_def)

text \<open>
  C7. In both files the handler never lets an exception out: whatever the normalizer or
  the attribute store call raises is logged as the handler's last effect, and the loop
  goes through every message it is given, however many of them fail.
\<close>

theorem on_message_never_raises:
  "snd (on_message lib cfg msg) = None \<and> snd (on_message_exit lib cfg msg) = None
   \<and> snd (loop_forever (on_message lib cfg) msgs) = None
   \<and> snd (loop_forever (on_message_exit lib cfg) msgs) = None
   \<and> fst (loop_forever (on_message lib cfg) msgs) = concat (map (\<lambda>m. fst (on_message lib cfg m)) msgs)
   \<and> fst (loop_forever (on_message_exit lib cfg) msgs)
       = concat (map (\<lambda>m. fst (on_message_exit lib cfg m)) msgs)
   \<and> (\<forall>e. parse_payload lib cfg (payload_text msg) = Inl e
          \<longrightarrow> last (fst (on_message lib cfg msg)) = Log (Error_processing_failed e))
   \<and> (\<forall>e. parse_payload_exit lib cfg (payload_text msg) = Inl e
          \<longrightarrow> last (fst (on_message_exit lib cfg msg)) = Log (Error_processing_failed e))
   \<and> (\<forall>ds w ff e. parse_payload lib cfg (payload_text msg) = Inr (ds, w, ff)
            \<and> snd (post_exist lib cfg ds w ff) = Some e
          \<longrightarrow> last (fst (on_message lib cfg msg)) = Log (Error_processing_failed e))
   \<and> (\<forall>ds w ff e. parse_payload_exit lib cfg (payload_text msg) = Inr (ds, w, ff)
            \<and> snd (post_exist_exit lib cfg ds w ff) = Some e
          \<longrightarrow> last (fst (on_message_exit lib cfg msg)) = Log (Error_processing_failed e))"
  using loop_forever_total [of "on_message lib cfg" msgs, OF on_message_returns]
    loop_forever_total [of "on_message_exit lib cfg" msgs, OF on_message_exit_returns]
  by (auto simp: on_message_returns on_message_exit_returns on_message_failure_logged
      on_message_exit_failure_logged on_message_post_failure_logged
      on_message_exit_post_failure_logged)

lemma fixture_parse_empty:
  "parse_payload (fixture_lib (JObj [])) fixture_cfg s = Inl (ValueError MISSING_WEIGHT)"
  by (simp add: parse_payload_def fixture_loads bind_exc_Inr parse_decoded.simps date_arg_def
      dict_get_def dict_get_default_def py_or_def fixture_today bind_exc_Inr weight_arg_def)

theorem on_message_never_raises_witness:
  "parse_payload (fixture_lib (JObj [])) fixture_cfg ''{}'' = Inl (ValueError MISSING_WEIGHT)
   \<and> last (fst (on_message (fixture_lib (JObj [])) fixture_cfg \<lparr> topic = ''t'', payload_text = ''{}'' \<rparr>))
     = Log (Error_processing_failed (ValueError MISSING_WEIGHT))
   \<and> snd (loop_forever (on_message (fixture_lib (JObj [])) fixture_cfg)
           [\<lparr> topic = ''t'', payload_text = ''{}'' \<rparr>, \<lparr> topic = ''t'', payload_text = ''{}'' \<rparr>]) = None"
proof -
  let ?m = "\<lparr> topic = ''t'', payload_text = ''{}'' \<rparr>"
  have p: "parse_payload (fixture_lib (JObj [])) fixture_cfg (payload_text ?m) = Inl (ValueError MISSING_WEIGHT)"
    by (rule fixture_parse_empty)
  from on_message_never_raises [of "fixture_lib (JObj [])" fixture_cfg ?m "[?m, ?m]"] p
  show ?thesis by simp
qed

section \<open>Missing weight\<close>

lemma weight_arg_absent:
  "map_of d ''weight'' = None \<Longrightarrow> map_of d ''weight_kg'' = None \<Longrightarrow> weight_arg d = JNull"
  by (simp add: weight_arg_def dict_get_def dict_get_default_def)

lemma parse_decoded_weight_absent:
  assumes "weight_arg d = JNull"
  shows "parse_decoded lib cfg (JObj d)
       = bind_exc (to_local_date lib cfg (date_arg d)) (\<lambda>ds. Inl (ValueError MISSING_WEIGHT))"
    and "parse_decoded_exit lib cfg (JObj d)
       = bind_exc (to_local_date lib cfg (date_arg d)) (\<lambda>ds. Inl (ValueError MISSING_WEIGHT))"
  using assms by (simp_all add: parse_decoded.simps parse_decoded_exit.simps)

lemma bind_exc_always_Inl: "\<exists>e. bind_exc r (\<lambda>x. Inl (f x)) = Inl e"
  by (cases r) (simp_all add: bind_exc_def)

text \<open>
  C5. A payload that decodes to an object with neither \<open>weight\<close> nor \<open>weight_kg\<close> is
  not normalized, by either file: the normalizer raises (the ValueError for the missing
  weight whenever the date resolves, the date resolver's exception otherwise), and the
  handler makes no call to the attribute store.
\<close>

theorem missing_weight_no_update:
  assumes "json_loads lib (payload_text msg) = Inr (JObj d)"
    and "map_of d ''weight'' = None" and "map_of d ''weight_kg'' = None"
  shows "(\<exists>e. parse_payload lib cfg (payload_text msg) = Inl e)
       \<and> (\<exists>e. parse_payload_exit lib cfg (payload_text msg) = Inl e)
       \<and> (\<forall>ds. to_local_date lib cfg (date_arg d) = Inr ds \<longrightarrow>
             parse_payload lib cfg (payload_text msg) = Inl (ValueError MISSING_WEIGHT)
           \<and> parse_payload_exit lib cfg (payload_text msg) = Inl (ValueError MISSING_WEIGHT))
       \<and> filter is_http_post (fst (on_message lib cfg msg)) = []
       \<and> filter is_http_post (fst (on_message_exit lib cfg msg)) = []"
proof -
  have w: "weight_arg d = JNull" using assms(2,3) by (rule weight_arg_absent)
  have p1: "parse_payload lib cfg (payload_text msg)
          = bind_exc (to_local_date lib cfg (date_arg d)) (\<lambda>ds. Inl (ValueError MISSING_WEIGHT))"
    by (simp add: parse_payload_def assms(1) bind_exc_Inr parse_decoded_weight_absent [OF w])
  have p2: "parse_payload_exit lib cfg (payload_text msg)
          = bind_exc (to_local_date lib cfg (date_arg d)) (\<lambda>ds. Inl (ValueError MISSING_WEIGHT))"
    by (simp add: parse_payload_exit_def assms(1) bind_exc_Inr parse_decoded_weight_absent [OF w])
  have "\<exists>e. parse_payload lib cfg (payload_text msg) = Inl e"
    unfolding p1 by (rule bind_exc_always_Inl)
  then obtain e where q1: "parse_payload lib cfg (payload_text msg) = Inl e" by blast
  then have q2: "parse_payload_exit lib cfg (payload_text msg) = Inl e"
    using p1 p2 by simp
  have a: "filter is_http_post (fst (on_message lib cfg msg)) = []"
    by (simp add: on_message_failure_logged [OF q1])
  have b: "filter is_http_post (fst (on_message_exit lib cfg msg)) = []"
    by (simp add: on_message_exit_failure_logged [OF q2])
  have c: "parse_payload lib cfg (payload_text msg) = Inl (ValueError MISSING_WEIGHT)
         \<and> parse_payload_exit lib cfg (payload_text msg) = Inl (ValueError MISSING_WEIGHT)"
    if "to_local_date lib cfg (date_arg d) = Inr ds" for ds
    using that by (simp add: p1 p2 bind_exc_Inr)
  show ?thesis using q1 q2 a b c by blast
qed

theorem missing_weight_no_update_witness:
  "parse_payload (fixture_lib (JObj [(''fat'', JInt 20)])) fixture_cfg ''{\"fat\": 20}''
     = Inl (ValueError MISSING_WEIGHT)
   \<and> filter is_http_post
        (fst (on_message (fixture_lib (JObj [(''fat'', JInt 20)])) fixture_cfg
               \<lparr> topic = ''t'', payload_text = ''{\"fat\": 20}'' \<rparr>)) = []
   \<and> filter is_http_post
        (fst (on_message_exit (fixture_lib (JObj [(''fat'', JInt 20)])) fixture_cfg
               \<lparr> topic = ''t'', payload_text = ''{\"fat\": 20}'' \<rparr>)) = []"
proof -
  let ?d = "[(''fat'', JInt 20)]"
  let ?m = "\<lparr> topic = ''t'', payload_text = ''{\"fat\": 20}'' \<rparr>"
  have l: "json_loads (fixture_lib (JObj ?d)) (payload_text ?m) = Inr (JObj ?d)"
    by (rule fixture_loads)
  have t: "to_local_date (fixture_lib (JObj ?d)) fixture_cfg (date_arg ?d) = Inr ''2025-11-04''"
    by (simp add: date_arg_def py_or_def dict_get_def dict_get_default_def fixture_today)
  from missing_weight_no_update [OF l, of fixture_cfg] t show ?thesis by simp
qed

section \<open>Startup without a token\<close>

text \<open>\<open>mqtt2exist.py\<close> refuses to start without a token.\<close>

lemma main_token_missing:
  assumes "token_missing cfg"
  shows "main lib cfg msgs
       = ([], Some (RuntimeError ''EXIST_TOKEN is not configured. Set it in .env or environment variables.''))"
  using assms by (simp add: main_def)

lemma token_missing_unset: "env ''EXIST_TOKEN'' = None \<Longrightarrow> token_missing (load_config env)"
  and token_missing_unset_exit: "env ''EXIST_TOKEN'' = None \<Longrightarrow> token_missing (load_config_exit env)"
  by (simp_all add: token_missing_def load_config_def load_config_exit_def)

text \<open>
  \<open>mqtt2exit.py\<close> starts: it connects and handles every message, and each message
  that is normalized fails in \<open>post_exist\<close>.
\<close>

lemma main_exit_token_missing:
  assumes "token_missing cfg" and "mqtt_connect lib = None"
  shows "snd (main_exit lib cfg msgs) = None"
    and "fst (main_exit lib cfg msgs) = concat (map (\<lambda>m. fst (on_message_exit lib cfg m)) msgs)"
  using assms loop_forever_total [of "on_message_exit lib cfg" msgs, OF on_message_exit_returns]
  by (simp_all add: main_exit_def)

lemma on_message_exit_token_missing:
  assumes "token_missing cfg" and "parse_payload_exit lib cfg (payload_text m) = Inr t"
  shows "fst (on_message_exit lib cfg m)
       = [Log (Info_mqtt_message (topic m) (payload_text m)),
          Log (Error_processing_failed (RuntimeError ''Set EXIST_TOKEN (OAuth2 Bearer with write scope).''))]"
  using assms by (cases t) (simp add: on_message_exit_def post_exist_exit_def except_log_def Let_def)

text \<open>
  C3 holds for \<open>mqtt2exist.py\<close> and fails for \<open>mqtt2exit.py\<close>. With no
  \<open>EXIST_TOKEN\<close> in the environment, \<open>main\<close> of the first file raises before it
  connects; \<open>main\<close> of the second connects, takes the message
  \<^verbatim>\<open>{"weight": 80, "fat": 20}\<close>, and fails on it in \<open>post_exist\<close>.
\<close>

theorem main_exit_starts_without_token:
  "main (fixture_lib (JObj [(''weight'', JInt 80), (''fat'', JInt 20)])) (load_config (\<lambda>k. None))
      [\<lparr> topic = ''t'', payload_text = ''{\"weight\": 80, \"fat\": 20}'' \<rparr>]
     = ([], Some (RuntimeError ''EXIST_TOKEN is not configured. Set it in .env or environment variables.''))
   \<and> main_exit (fixture_lib (JObj [(''weight'', JInt 80), (''fat'', JInt 20)])) (load_config_exit (\<lambda>k. None))
      [\<lparr> topic = ''t'', payload_text = ''{\"weight\": 80, \"fat\": 20}'' \<rparr>]
     = ([Log (Info_mqtt_message ''t'' ''{\"weight\": 80, \"fat\": 20}''),
         Log (Error_processing_failed (RuntimeError ''Set EXIST_TOKEN (OAuth2 Bearer with write scope).''))],
        None)"
proof -
  let ?d = "[(''weight'', JInt 80), (''fat'', JInt 20)]"
  let ?m = "\<lparr> topic = ''t'', payload_text = ''{\"weight\": 80, \"fat\": 20}'' \<rparr>"
  let ?lib = "fixture_lib (JObj ?d)"
  let ?cfg = "load_config_exit (\<lambda>k. None)"
  have a: "main ?lib (load_config (\<lambda>k. None)) [?m]
     = ([], Some (RuntimeError ''EXIST_TOKEN is not configured. Set it in .env or environment variables.''))"
    by (rule main_token_missing) (simp add: token_missing_unset)
  have tm: "token_missing ?cfg" by (simp add: token_missing_unset_exit)
  have "parse_decoded_exit ?lib ?cfg (JObj ?d) = Inr (''2025-11-04'', Fin 80, Some (double_round (20 / 100)))"
    by code_simp
  then have p: "parse_payload_exit ?lib ?cfg (payload_text ?m)
              = Inr (''2025-11-04'', Fin 80, Some (double_round (20 / 100)))"
    by (simp add: parse_payload_exit_def fixture_loads bind_exc_Inr)
  have c: "mqtt_connect ?lib = None" by (simp add: fixture_lib_def)
  have "fst (main_exit ?lib ?cfg [?m]) = fst (on_message_exit ?lib ?cfg ?m)"
    using main_exit_token_missing(2) [OF tm c, of "[?m]"] by simp
  then have "fst (main_exit ?lib ?cfg [?m])
     = [Log (Info_mqtt_message ''t'' ''{\"weight\": 80, \"fat\": 20}''),
        Log (Error_processing_failed (RuntimeError ''Set EXIST_TOKEN (OAuth2 Bearer with write scope).''))]"
    using on_message_exit_token_missing [OF tm p] by simp
  moreover have "snd (main_exit ?lib ?cfg [?m]) = None"
    by (rule main_exit_token_missing(1) [OF tm c])
  ultimately have b: "main_exit ?lib ?cfg [?m]
     = ([Log (Info_mqtt_message ''t'' ''{\"weight\": 80, \"fat\": 20}''),
         Log (Error_processing_failed (RuntimeError ''Set EXIST_TOKEN (OAuth2 Bearer with write scope).''))],
        None)"
    by (simp add: prod_eq_iff)
  from a b show ?thesis by (rule conjI)
qed

section \<open>Integers beyond the float range\<close>

text \<open>
  The same divergence on an integer beyond the float range: \<open>float(10**309)\<close> raises
  OverflowError in \<open>mqtt2exist.py\<close>, while \<open>10**309 / 100\<close> is a float in
  \<open>mqtt2exit.py\<close>, which returns a record.
\<close>

lemma big_int_fat_diverges:
  "parse_decoded (fixture_lib JNull) fixture_cfg
      (JObj [(''weight'', JInt 80), (''fat'', JInt (10 ^ 309))]) = Inl OverflowError
   \<and> (\<exists>r. parse_decoded_exit (fixture_lib JNull) fixture_cfg
              (JObj [(''weight'', JInt 80), (''fat'', JInt (10 ^ 309))])
            = Inr (''2025-11-04'', Fin 80, Some (Fin r)))"
proof -
  define n :: int where "n = 10 ^ 309"
  let ?d = "[(''weight'', JInt 80), (''fat'', JInt n)]"
  let ?lib = "fixture_lib JNull"
  have dt: "to_local_date ?lib fixture_cfg (date_arg ?d) = Inr ''2025-11-04''"
    by (simp add: date_arg_def py_or_def dict_get_def dict_get_default_def fixture_today)
  have wa: "weight_arg ?d = JInt 80" by (simp add: weight_arg_def dict_get_def dict_get_default_def)
  have ua: "unit_arg ?lib ?d = Inr ''kg''"
    by (simp add: unit_arg_def py_or_def dict_get_def dict_get_default_def str_lower_kg)
  have fa: "dict_get ?d ''fat'' = JInt n" by (simp add: dict_get_def dict_get_default_def)
  have nn: "JInt n \<noteq> JNull" by simp
  have w80: "py_float ?lib (JInt 80) = Inr (Fin 80)" by (simp add: float_of_int_exact)
  have r80: "py_round2 (Fin 80) = Inr (Fin 80)" by code_simp
  have ov: "py_float ?lib (JInt n) = Inl OverflowError"
    unfolding n_def py_float.simps by (rule float_of_int_overflow)
  have 1: "parse_decoded ?lib fixture_cfg (JObj ?d) = Inl OverflowError"
    unfolding parse_decoded.simps weight_kg_exist Let_def dt wa ua fa w80 ov
    by (simp only: bind_exc_Inl bind_exc_Inr nn if_True if_False simp_thms json.simps)
  have "\<bar>of_int n / 100 :: rat\<bar> \<le> 10 ^ 307" by (simp add: n_def)
  moreover have "(1::rat) \<le> 10 ^ 307" by simp
  moreover have b1: "2 * (10 ^ 307 :: rat) < pow2 1024" by (simp add: pow2_def)
  ultimately obtain q where q: "double_round (of_int n / 100) = Fin q"
    and qb: "\<bar>q\<bar> \<le> 2 * 10 ^ 307"
    using double_round_bounded [of "of_int n / 100" "10 ^ 307"] by blast
  have "4 * (2 * 10 ^ 307 :: rat) < pow2 1024" by (simp add: pow2_def)
  with qb obtain r where r: "py_round2 (Fin q) = Inr (Fin r)"
    using py_round2_finite [of q "2 * 10 ^ 307"] by auto
  have dv: "div_by_100 (JInt n) = Inr (Fin q)"
    using q by (simp add: int_true_div_def)
  have "parse_decoded_exit ?lib fixture_cfg (JObj ?d) = Inr (''2025-11-04'', Fin 80, Some (Fin r))"
    unfolding parse_decoded_exit_Inr dt wa ua fa
    using w80 r80 dv r by simp
  with 1 show ?thesis unfolding n_def by blast
qed

end
